theory Spec2Isabelle
  imports Main "HOL-Library.AList"
begin

section \<open>Strings of the parser\<close>

text \<open>
  A JavaScript string is a sequence of code units. The model uses \<open>string\<close> (a list of
  \<open>char\<close>), one \<open>char\<close> per code unit, which covers the code units U+0000 to U+00FF;
  iCalendar structure (names, markers, separators, escapes) is ASCII.
\<close>

definition CR :: char where "CR = CHR 0x0D"
definition LF :: char where "LF = CHR 0x0A"
definition TAB :: char where "TAB = CHR 0x09"
definition SP :: char where "SP = CHR 0x20"
definition BSL :: char where "BSL = CHR 0x5C"
definition DQ :: char where "DQ = CHR 0x22"

text \<open>
  The characters that \<open>String.prototype.trim\<close> removes (white space and line
  terminators), among the code units below U+0100: TAB, LF, VT, FF, CR, SPACE, NBSP.
\<close>

definition is_ws :: "char \<Rightarrow> bool" where
  "is_ws c = (c = TAB \<or> c = LF \<or> c = CHR 0x0B \<or> c = CHR 0x0C \<or> c = CR \<or> c = SP \<or> c = CHR 0xA0)"

definition js_trim :: "string \<Rightarrow> string" where
  "js_trim s = rev (dropWhile is_ws (rev (dropWhile is_ws s)))"

text \<open>\<open>s.split(c)\<close> for a one-character separator; the empty string splits into \<open>[""]\<close>.\<close>

fun split_on :: "char \<Rightarrow> string \<Rightarrow> string list" where
  "split_on c [] = [[]]"
| "split_on c (x # xs) =
     (if x = c then [] # split_on c xs
      else (case split_on c xs of [] \<Rightarrow> [[x]] | y # ys \<Rightarrow> (x # y) # ys))"

section \<open>Line unfolder (icsUtils.ts, unfoldLines)\<close>

text \<open>
  The three global regular-expression replacements of \<open>unfoldLines\<close>, each one a single
  left-to-right scan over non-overlapping matches, as \<open>String.prototype.replace\<close> with the
  \<open>g\<close> flag does.
\<close>

fun remove_crlf_fold :: "string \<Rightarrow> string" where
  "remove_crlf_fold (a # b # c # rest) =
     (if a = CR \<and> b = LF \<and> (c = SP \<or> c = TAB) then remove_crlf_fold rest
      else a # remove_crlf_fold (b # c # rest))"
| "remove_crlf_fold s = s"

fun remove_lf_fold :: "string \<Rightarrow> string" where
  "remove_lf_fold (a # b # rest) =
     (if a = LF \<and> (b = SP \<or> b = TAB) then remove_lf_fold rest
      else a # remove_lf_fold (b # rest))"
| "remove_lf_fold s = s"

fun normalize_eol :: "string \<Rightarrow> string" where
  "normalize_eol (a # b # rest) =
     (if a = CR \<and> b = LF then LF # normalize_eol rest
      else a # normalize_eol (b # rest))"
| "normalize_eol s = s"

definition unfoldLines :: "string \<Rightarrow> string list" where
  "unfoldLines content =
     filter (\<lambda>line. length (js_trim line) > 0)
       (split_on LF (normalize_eol (remove_lf_fold (remove_crlf_fold content))))"

text \<open>Folding a line: CRLF and one space inserted at offset \<open>i\<close>.\<close>

definition fold_at :: "nat \<Rightarrow> string \<Rightarrow> string" where
  "fold_at i l = take i l @ [CR, LF, SP] @ drop i l"


section \<open>Property tokenizer (icsUtils.ts)\<close>

text \<open>\<open>s.indexOf(c)\<close>; \<open>None\<close> stands for the result \<open>-1\<close>.\<close>

fun index_of :: "char \<Rightarrow> string \<Rightarrow> nat option" where
  "index_of c [] = None"
| "index_of c (x # xs) = (if x = c then Some 0 else map_option Suc (index_of c xs))"

definition starts_with :: "string \<Rightarrow> string \<Rightarrow> bool" where
  "starts_with p s = (take (length p) s = p)"

definition ends_with :: "string \<Rightarrow> string \<Rightarrow> bool" where
  "ends_with p s = (length p \<le> length s \<and> drop (length s - length p) s = p)"

text \<open>
  \<open>toUpperCase\<close> on the ASCII letters: a lower-case letter loses the bit \<open>0x20\<close>. Code
  units above U+007F are left as they are (the names and parameter keys of iCalendar are
  ASCII).
\<close>

definition upper_char :: "char \<Rightarrow> char" where
  "upper_char c =
     (let n = (of_char c :: nat) in
      if 97 \<le> n \<and> n \<le> 122 then
        (case c of Char b0 b1 b2 b3 b4 b5 b6 b7 \<Rightarrow> Char b0 b1 b2 b3 b4 False b6 b7)
      else c)"

definition toUpperCase :: "string \<Rightarrow> string" where
  "toUpperCase s = map upper_char s"

text \<open>
  \<open>s.replace(/ab/g, r)\<close> for a pattern of two literal characters \<open>a\<close>, \<open>b\<close>: one scan from
  the left, the text after a match is scanned next, the replacement is not scanned again.
\<close>

fun replace2 :: "char \<Rightarrow> char \<Rightarrow> string \<Rightarrow> string \<Rightarrow> string" where
  "replace2 a b r (x # y # rest) =
     (if x = a \<and> y = b then r @ replace2 a b r rest else x # replace2 a b r (y # rest))"
| "replace2 a b r s = s"

text \<open>\<open>unescapeValue\<close>: six replacements, one after the other, in the order of the source.\<close>

definition unescapeValue :: "string \<Rightarrow> string" where
  "unescapeValue v =
     replace2 BSL BSL [BSL]
       (replace2 BSL (CHR '','') '',''
         (replace2 BSL (CHR '';'') '';''
           (replace2 BSL (CHR ''t'') [TAB]
             (replace2 BSL (CHR ''r'') [CR]
               (replace2 BSL (CHR ''n'') [LF] v)))))"

text \<open>
  The source has no escaping function. This one follows the words of the specification:
  newline, carriage return, tab, semicolon and comma are encoded, each backslash is doubled.
\<close>

definition spec_escape_char :: "char \<Rightarrow> string" where
  "spec_escape_char c =
     (if c = LF then [BSL, CHR ''n'']
      else if c = CR then [BSL, CHR ''r'']
      else if c = TAB then [BSL, CHR ''t'']
      else if c = CHR '';'' then [BSL, CHR '';'']
      else if c = CHR '','' then [BSL, CHR '','']
      else if c = BSL then [BSL, BSL]
      else [c])"

definition spec_escapeValue :: "string \<Rightarrow> string" where
  "spec_escapeValue v = concat (map spec_escape_char v)"

text \<open>
  A JavaScript object used as a dictionary is an association list: a new key is added at
  the end, an assignment to a key that is there replaces its value (\<open>AList.update\<close>), a read
  is \<open>map_of\<close>.
\<close>

type_synonym dict = "(string \<times> string) list"

text \<open>The body of the \<open>for\<close> loop of \<open>parseParameters\<close>.\<close>

definition parseParameter :: "dict \<Rightarrow> string \<Rightarrow> dict" where
  "parseParameter parameters pair =
     (case index_of (CHR ''='') pair of
        None \<Rightarrow> parameters
      | Some equalIndex \<Rightarrow>
          (let key = toUpperCase (take equalIndex pair);
               v = drop (equalIndex + 1) pair;
               v' = (if starts_with [DQ] v \<and> ends_with [DQ] v then butlast (tl v) else v)
           in AList.update key v' parameters))"

definition parseParameters :: "string \<Rightarrow> dict" where
  "parseParameters paramString = foldl parseParameter [] (split_on (CHR '';'') paramString)"

record PropertyToken =
  name :: string
  parameters :: dict
  pvalue :: string

text \<open>
  \<open>parsePropertyLine\<close>. \<open>Inl\<close> carries the message of the \<open>Error\<close> that the source throws.
\<close>

definition parsePropertyLine :: "string \<Rightarrow> string + PropertyToken" where
  "parsePropertyLine line =
     (case index_of (CHR '':'') line of
        None \<Rightarrow> Inl (''Invalid property line: '' @ line)
      | Some colonIndex \<Rightarrow>
          (let propertyPart = take colonIndex line;
               v = drop (colonIndex + 1) line
           in (case index_of (CHR '';'') propertyPart of
                 None \<Rightarrow>
                   Inr \<lparr>name = toUpperCase propertyPart, parameters = [],
                        pvalue = unescapeValue v\<rparr>
               | Some semicolonIndex \<Rightarrow>
                   Inr \<lparr>name = toUpperCase (take semicolonIndex propertyPart),
                        parameters = parseParameters (drop (semicolonIndex + 1) propertyPart),
                        pvalue = unescapeValue v\<rparr>)))"

text \<open>
  \<open>splitCommaSeparated\<close>: the loop over the characters with its three variables, then the
  push of the last segment when it is not blank.
\<close>

fun splitComma_loop :: "string \<Rightarrow> string list \<Rightarrow> string \<Rightarrow> bool \<Rightarrow> string list \<times> string" where
  "splitComma_loop [] result current escaped = (result, current)"
| "splitComma_loop (ch # rest) result current escaped =
     (if escaped then splitComma_loop rest result (current @ [ch]) False
      else if ch = BSL then splitComma_loop rest result (current @ [ch]) True
      else if ch = CHR '','' then
        splitComma_loop rest (result @ [unescapeValue (js_trim current)]) [] escaped
      else splitComma_loop rest result (current @ [ch]) escaped)"

definition splitCommaSeparated :: "string \<Rightarrow> string list" where
  "splitCommaSeparated v =
     (case splitComma_loop v [] [] False of
        (result, current) \<Rightarrow>
          (if js_trim current \<noteq> [] then result @ [unescapeValue (js_trim current)]
           else result))"

text \<open>
  \<open>x || undefined\<close>: for a string \<open>x\<close> that may be absent, the empty string is falsy; for a
  boolean, \<open>false\<close> is.
\<close>

definition or_undefined :: "string option \<Rightarrow> string option" where
  "or_undefined x = (case x of None \<Rightarrow> None | Some s \<Rightarrow> if s = [] then None else Some s)"

definition bool_or_undefined :: "bool \<Rightarrow> bool option" where
  "bool_or_undefined b = (if b then Some True else None)"

record Person =
  email :: string
  commonName :: "string option"
  role :: "string option"
  partstat :: "string option"
  rsvp :: "bool option"

definition parsePersonProperty :: "string \<Rightarrow> dict \<Rightarrow> Person" where
  "parsePersonProperty v params =
     \<lparr>email = (if starts_with ''mailto:'' v then drop 7 v else v),
      commonName = or_undefined (map_of params ''CN''),
      role = or_undefined (map_of params ''ROLE''),
      partstat = or_undefined (map_of params ''PARTSTAT''),
      rsvp = bool_or_undefined (map_of params ''RSVP'' = Some ''TRUE'')\<rparr>"


section \<open>Data model\<close>

text \<open>\<open>ComponentBlock\<close> of parseIcsData.ts.\<close>

datatype ComponentBlock =
  ComponentBlock (ctype: string) (properties: "PropertyToken list")
    (subComponents: "ComponentBlock list")

text \<open>
  A number produced by \<open>parseInt\<close>: \<open>NaN\<close> or an integer. The model keeps the integer
  exactly; JavaScript stores the nearest double, which is the same number below \<open>2^53\<close>.
\<close>

datatype js_number = NaN | Num int

text \<open>
  The candidate event that \<open>parseEventBlock\<close> fills (\<open>Partial<IcsEvent>\<close>): every field
  may be absent. The field \<open>class\<close> of the source is \<open>eclass\<close> here.
\<close>

record IcsEvent =
  uid :: "string option"
  dtstamp :: "string option"
  dtstart :: "string option"
  dtend :: "string option"
  duration :: "string option"
  summary :: "string option"
  description :: "string option"
  location :: "string option"
  status :: "string option"
  eclass :: "string option"
  transp :: "string option"
  priority :: "js_number option"
  sequence :: "js_number option"
  created :: "string option"
  lastModified :: "string option"
  url :: "string option"
  geo :: "string option"
  recurid :: "string option"
  rrule :: "string option"
  organizer :: "Person option"
  attendee :: "Person list option"
  categories :: "string list option"
  comment :: "string list option"
  contact :: "string list option"
  attach :: "string list option"
  exdate :: "string list option"
  related :: "string list option"
  resources :: "string list option"
  rdate :: "string list option"
  customProperties :: "dict option"

record IcsTodo =
  todo_uid :: "string option"
  todo_dtstamp :: "string option"
  todo_summary :: "string option"
  todo_description :: "string option"
  todo_priority :: "js_number option"
  todo_status :: "string option"
  todo_due :: "string option"
  todo_completed :: "string option"
  todo_percentComplete :: "js_number option"
  todo_customProperties :: "dict option"

record IcsJournal =
  journal_uid :: "string option"
  journal_dtstamp :: "string option"
  journal_summary :: "string option"
  journal_description :: "string option"
  journal_dtstart :: "string option"
  journal_customProperties :: "dict option"

record IcsFreeBusy =
  fb_uid :: "string option"
  fb_dtstamp :: "string option"
  fb_organizer :: "string option"
  fb_dtstart :: "string option"
  fb_dtend :: "string option"
  fb_freebusy :: "string list option"
  fb_customProperties :: "dict option"

record IcsTimezone =
  tzid :: string
  tz_rawData :: string

record UnparsedComponent =
  utype :: string
  rawData :: string

text \<open>
  The calendar that \<open>parseCalendarBlock\<close> fills (the field \<open>method\<close> of the source is
  \<open>cal_method\<close> here). The five sequences, the unparsed
  components and the custom properties are there from the start and are never removed.
\<close>

record IcsCalendar =
  version :: "string option"
  prodid :: "string option"
  calscale :: "string option"
  cal_method :: "string option"
  calname :: "string option"
  caldesc :: "string option"
  timezone :: "string option"
  refreshInterval :: "string option"
  events :: "IcsEvent list"
  todos :: "IcsTodo list"
  journals :: "IcsJournal list"
  freebusys :: "IcsFreeBusy list"
  timezones :: "IcsTimezone list"
  unparsedComponents :: "UnparsedComponent list"
  cal_customProperties :: dict

record Metadata =
  totalEvents :: nat
  totalTodos :: nat
  totalJournals :: nat
  totalFreebusys :: nat
  totalTimezones :: nat
  parseErrors :: "string list"
  parseWarnings :: "string list"

record ParsedIcsData =
  calendars :: "IcsCalendar list"
  metadata :: Metadata

text \<open>
  What the parser writes to the console, in order. The entries that print a whole value
  (through \<open>JSON.stringify\<close> or \<open>formatEventSummary\<close>) carry that value; their text is not
  modelled.
\<close>

datatype console =
  ConsoleLog string
| ConsoleWarn string
| ConsoleError string
| LogLines "string list"
| LogBlocks "ComponentBlock list"
| LogResult ParsedIcsData
| LogCalendars "IcsCalendar list"

text \<open>
  What the parser takes from outside the repository: the \<open>email\<close> and \<open>url\<close> string checks
  of the Zod library, the message of the \<open>ZodError\<close> that a schema throws on a rejected
  candidate, and \<open>JSON.stringify\<close> on a component block.
\<close>

record externals =
  is_email :: "string \<Rightarrow> bool"
  is_url :: "string \<Rightarrow> bool"
  event_issues :: "IcsEvent \<Rightarrow> string"
  calendar_issues :: "IcsCalendar \<Rightarrow> string"
  json_stringify :: "ComponentBlock \<Rightarrow> string"


section \<open>Block tree builder (parseIcsData.ts, parseIntoBlocks)\<close>

text \<open>Decimal text of a number, as a template literal prints it.\<close>

fun show_nat :: "nat \<Rightarrow> string" where
  "show_nat n =
     (if n < 10 then [char_of (48 + n)]
      else show_nat (n div 10) @ [char_of (48 + n mod 10)])"

declare show_nat.simps [simp del]

text \<open>\<open>xs.join(sep)\<close>.\<close>

fun join :: "string \<Rightarrow> string list \<Rightarrow> string" where
  "join sep [] = []"
| "join sep [x] = x"
| "join sep (x # y # ys) = x @ sep @ join sep (y # ys)"

text \<open>
  The source keeps every open block in two places, on \<open>stack\<close> and, from the moment of its
  \<open>BEGIN\<close>, in the \<open>subComponents\<close> of its parent (or in \<open>blocks\<close> for a root), and fills it
  through the stack. Here an open block is on the stack only, the top of the stack at the
  head of the list, and it is appended to its parent (or to \<open>blocks\<close>) when its \<open>END\<close> pops
  it. The parent of a new block is the top of the stack, so the children of one block are
  opened and closed one after the other and are appended in the order of their \<open>BEGIN\<close>
  lines; the function returns the blocks only when the stack is empty.
\<close>

record builder =
  blocks :: "ComponentBlock list"
  stack :: "ComponentBlock list"

definition add_property :: "PropertyToken \<Rightarrow> ComponentBlock \<Rightarrow> ComponentBlock" where
  "add_property p b = ComponentBlock (ctype b) (properties b @ [p]) (subComponents b)"

definition add_subComponent :: "ComponentBlock \<Rightarrow> ComponentBlock \<Rightarrow> ComponentBlock" where
  "add_subComponent c b = ComponentBlock (ctype b) (properties b) (subComponents b @ [c])"

text \<open>
  The \<open>try\<close> body of the loop, on the trimmed line with index \<open>i\<close>. \<open>Inl\<close> carries the message
  of the error thrown; every throw comes before the first change of the state.
\<close>

definition blockLine :: "nat \<Rightarrow> string \<Rightarrow> builder \<Rightarrow> string + builder" where
  "blockLine i line b =
     (if starts_with ''BEGIN:'' line then
        Inr (b\<lparr>stack := ComponentBlock (drop 6 line) [] [] # stack b\<rparr>)
      else if starts_with ''END:'' line then
        (let componentType = drop 4 line in
         case stack b of
           [] \<Rightarrow> Inl (''Unexpected END:'' @ componentType @ '' at line '' @ show_nat (i + 1))
         | currentBlock # rest \<Rightarrow>
             if ctype currentBlock \<noteq> componentType then
               Inl (''Mismatched component: expected END:'' @ ctype currentBlock
                    @ '', got END:'' @ componentType @ '' at line '' @ show_nat (i + 1))
             else
               (case rest of
                  [] \<Rightarrow> Inr \<lparr>blocks = blocks b @ [currentBlock], stack = []\<rparr>
                | parent # rest' \<Rightarrow>
                    Inr \<lparr>blocks = blocks b,
                         stack = add_subComponent currentBlock parent # rest'\<rparr>))
      else
        (case stack b of
           [] \<Rightarrow> Inl (''Property outside of component at line '' @ show_nat (i + 1)
                      @ '': '' @ line)
         | lastItem # rest \<Rightarrow>
             (case parsePropertyLine line of
                Inl msg \<Rightarrow> Inl msg
              | Inr property \<Rightarrow> Inr (b\<lparr>stack := add_property property lastItem # rest\<rparr>))))"

text \<open>
  The \<open>for\<close> loop: empty and blank lines are skipped, an error of the body is caught, printed
  as a warning when \<open>debug\<close> is set, and the loop goes on with the state unchanged.
\<close>

fun blocksLoop ::
  "bool \<Rightarrow> nat \<Rightarrow> string list \<Rightarrow> builder \<times> console list \<Rightarrow> builder \<times> console list" where
  "blocksLoop debug i [] st = st"
| "blocksLoop debug i (raw_line # rest) (b, out) =
     (if raw_line = [] \<or> js_trim raw_line = [] then blocksLoop debug (i + 1) rest (b, out)
      else
        (case blockLine i (js_trim raw_line) b of
           Inr b' \<Rightarrow> blocksLoop debug (i + 1) rest (b', out)
         | Inl msg \<Rightarrow>
             blocksLoop debug (i + 1) rest
               (b, out @ (if debug
                          then [ConsoleWarn (''Warning at line '' @ show_nat (i + 1) @ '': '' @ msg)]
                          else []))))"

definition parseIntoBlocks ::
  "string list \<Rightarrow> bool \<Rightarrow> (string + ComponentBlock list) \<times> console list" where
  "parseIntoBlocks lines debug =
     (case blocksLoop debug 0 lines (\<lparr>blocks = [], stack = []\<rparr>, []) of
        (b, out) \<Rightarrow>
          (if length (stack b) > 0 then
             (Inl (''Unclosed components: '' @ join '', '' (map ctype (rev (stack b)))), out)
           else (Inr (blocks b), out)))"

section \<open>Schemas (types/IcsEvent.ts, types/IcsCalendar.ts)\<close>

definition is_digit :: "char \<Rightarrow> bool" where
  "is_digit c = (let n = (of_char c :: nat) in 48 \<le> n \<and> n \<le> 57)"

text \<open>\<open>/^\d{8}T\d{6}Z?$/\<close>\<close>

definition icsDateTime :: "string \<Rightarrow> bool" where
  "icsDateTime s =
     (let d = take 8 s; t = take 6 (drop 9 s); z = drop 15 s
      in length d = 8 \<and> list_all is_digit d \<and> take 1 (drop 8 s) = ''T''
         \<and> length t = 6 \<and> list_all is_digit t \<and> (z = [] \<or> z = ''Z''))"

text \<open>\<open>/^\d{8}$/\<close>\<close>

definition icsDate :: "string \<Rightarrow> bool" where
  "icsDate s = (length s = 8 \<and> list_all is_digit s)"

definition icsDateOrDateTime :: "string \<Rightarrow> bool" where
  "icsDateOrDateTime s = (icsDate s \<or> icsDateTime s)"

text \<open>\<open>/^FREQ=/\<close>\<close>

definition rruleSchema :: "string \<Rightarrow> bool" where
  "rruleSchema s = starts_with ''FREQ='' s"

text \<open>
  \<open>/^-?\d+\.?\d*;-?\d+\.?\d*$/\<close>: the text before the first semicolon and the text after
  it each match \<open>-?\d+\.?\d*\<close> as a whole.
\<close>

definition geo_number :: "string \<Rightarrow> bool" where
  "geo_number s =
     (let s1 = (if starts_with ''-'' s then tl s else s);
          ds = takeWhile is_digit s1;
          r = dropWhile is_digit s1;
          r' = (if starts_with ''.'' r then tl r else r)
      in ds \<noteq> [] \<and> list_all is_digit r')"

definition geoSchema :: "string \<Rightarrow> bool" where
  "geoSchema s =
     (case index_of (CHR '';'') s of
        None \<Rightarrow> False
      | Some i \<Rightarrow> geo_number (take i s) \<and> geo_number (drop (i + 1) s))"

text \<open>An optional field passes when it is absent.\<close>

definition optional :: "('a \<Rightarrow> bool) \<Rightarrow> 'a option \<Rightarrow> bool" where
  "optional P x = (case x of None \<Rightarrow> True | Some v \<Rightarrow> P v)"

text \<open>A required field fails when it is absent.\<close>

definition required :: "('a \<Rightarrow> bool) \<Rightarrow> 'a option \<Rightarrow> bool" where
  "required P x = (case x of None \<Rightarrow> False | Some v \<Rightarrow> P v)"

definition enum :: "string list \<Rightarrow> string \<Rightarrow> bool" where
  "enum vs v = (v \<in> set vs)"

text \<open>
  \<open>z.number().int().min(lo)\<close>, with \<open>.max(hi)\<close> when there is one. \<open>NaN\<close> is not a number for
  Zod, and an integer that \<open>parseInt\<close> rounds to \<open>Infinity\<close> (from \<open>2^1024 - 2^970\<close> on) is not
  an integer for \<open>Number.isInteger\<close>.
\<close>

definition int_between :: "int \<Rightarrow> int option \<Rightarrow> js_number \<Rightarrow> bool" where
  "int_between lo hi x =
     (case x of
        NaN \<Rightarrow> False
      | Num n \<Rightarrow> n < 2 ^ 1024 - 2 ^ 970 \<and> lo \<le> n \<and> (case hi of None \<Rightarrow> True | Some h \<Rightarrow> n \<le> h))"

definition attendeeSchema :: "externals \<Rightarrow> Person \<Rightarrow> bool" where
  "attendeeSchema ext p =
     (is_email ext (email p)
      \<and> optional (enum [''CHAIR'', ''REQ-PARTICIPANT'', ''OPT-PARTICIPANT'', ''NON-PARTICIPANT''])
            (role p)
      \<and> optional (enum [''NEEDS-ACTION'', ''ACCEPTED'', ''DECLINED'', ''TENTATIVE'', ''DELEGATED''])
            (partstat p))"

definition organizerSchema :: "externals \<Rightarrow> Person \<Rightarrow> bool" where
  "organizerSchema ext p = is_email ext (email p)"

text \<open>
  The organizer schema is a plain \<open>z.object\<close> with the keys \<open>email\<close> and \<open>commonName\<close>: the
  other keys of the person record are stripped from the parsed value, unchecked.
\<close>

definition strip_organizer :: "Person \<Rightarrow> Person" where
  "strip_organizer p = p\<lparr>role := None, partstat := None, rsvp := None\<rparr>"

text \<open>The object schema of an event, before the refinement.\<close>

definition eventFields :: "externals \<Rightarrow> IcsEvent \<Rightarrow> bool" where
  "eventFields ext e =
     (required (\<lambda>u. length u \<ge> 1) (uid e)
      \<and> required icsDateTime (dtstamp e)
      \<and> optional icsDateOrDateTime (dtstart e)
      \<and> optional (enum [''PUBLIC'', ''PRIVATE'', ''CONFIDENTIAL'']) (eclass e)
      \<and> optional icsDateTime (created e)
      \<and> optional icsDateOrDateTime (dtend e)
      \<and> optional geoSchema (geo e)
      \<and> optional icsDateTime (lastModified e)
      \<and> optional (organizerSchema ext) (organizer e)
      \<and> optional (int_between 0 (Some 9)) (priority e)
      \<and> optional (int_between 0 None) (sequence e)
      \<and> optional (enum [''TENTATIVE'', ''CONFIRMED'', ''CANCELLED'']) (status e)
      \<and> optional (enum [''OPAQUE'', ''TRANSPARENT'']) (transp e)
      \<and> optional (is_url ext) (url e)
      \<and> optional icsDateOrDateTime (recurid e)
      \<and> optional rruleSchema (rrule e)
      \<and> optional (list_all (attendeeSchema ext)) (attendee e)
      \<and> optional (list_all icsDateOrDateTime) (exdate e)
      \<and> optional (list_all icsDateOrDateTime) (rdate e))"

text \<open>The refinement: \<open>!(hasDtend && hasDuration)\<close>.\<close>

definition eventRefinement :: "IcsEvent \<Rightarrow> bool" where
  "eventRefinement e = (\<not> (dtend e \<noteq> None \<and> duration e \<noteq> None))"

text \<open>
  \<open>icsEventSchema.parse\<close> (the refined schema): the parsed event, or the message of the
  \<open>ZodError\<close> thrown.
\<close>

definition icsEventSchema_parse :: "externals \<Rightarrow> IcsEvent \<Rightarrow> string + IcsEvent" where
  "icsEventSchema_parse ext e =
     (if eventFields ext e \<and> eventRefinement e
      then Inr (e\<lparr>organizer := map_option strip_organizer (organizer e)\<rparr>)
      else Inl (event_issues ext e))"

definition icsTodoSchema :: "IcsTodo \<Rightarrow> bool" where
  "icsTodoSchema t =
     (todo_uid t \<noteq> None \<and> todo_dtstamp t \<noteq> None
      \<and> optional (int_between 0 (Some 9)) (todo_priority t)
      \<and> optional (enum [''NEEDS-ACTION'', ''COMPLETED'', ''IN-PROCESS'', ''CANCELLED''])
            (todo_status t)
      \<and> optional (int_between 0 (Some 100)) (todo_percentComplete t))"

definition icsJournalSchema :: "IcsJournal \<Rightarrow> bool" where
  "icsJournalSchema j = (journal_uid j \<noteq> None \<and> journal_dtstamp j \<noteq> None)"

definition icsFreebusySchema :: "IcsFreeBusy \<Rightarrow> bool" where
  "icsFreebusySchema f = (fb_uid f \<noteq> None \<and> fb_dtstamp f \<noteq> None)"

definition calendarFields :: "externals \<Rightarrow> IcsCalendar \<Rightarrow> bool" where
  "calendarFields ext c =
     (version c = Some ''2.0''
      \<and> required (\<lambda>p. length p \<ge> 1) (prodid c)
      \<and> optional (enum [''GREGORIAN'']) (calscale c)
      \<and> optional (enum [''PUBLISH'', ''REQUEST'', ''REPLY'', ''ADD'', ''CANCEL'', ''REFRESH'',
                        ''COUNTER'', ''DECLINECOUNTER'']) (cal_method c)
      \<and> list_all (\<lambda>e. eventFields ext e \<and> eventRefinement e) (events c)
      \<and> list_all icsTodoSchema (todos c)
      \<and> list_all icsJournalSchema (journals c)
      \<and> list_all icsFreebusySchema (freebusys c))"

text \<open>
  \<open>icsCalendarSchema.parse\<close>. The events of the candidate are parsed once more by the event
  schema. An absent \<open>calscale\<close> stays absent (the \<open>optional\<close> wrapper answers before the
  default of the schema it wraps, as in Zod 3).
\<close>

definition icsCalendarSchema_parse :: "externals \<Rightarrow> IcsCalendar \<Rightarrow> string + IcsCalendar" where
  "icsCalendarSchema_parse ext c =
     (if calendarFields ext c
      then Inr (c\<lparr>events :=
                    map (\<lambda>e. e\<lparr>organizer := map_option strip_organizer (organizer e)\<rparr>)
                      (events c)\<rparr>)
      else Inl (calendar_issues ext c))"


section \<open>Component mappers (parseIcsData.ts)\<close>

text \<open>
  \<open>parseInt(s, 10)\<close>: leading white space is skipped, one sign is read, then the longest
  run of decimal digits; no digit gives \<open>NaN\<close>.
\<close>

definition digits_value :: "string \<Rightarrow> int" where
  "digits_value ds = foldl (\<lambda>acc c. 10 * acc + (int (of_char c) - 48)) 0 ds"

definition parseInt10 :: "string \<Rightarrow> js_number" where
  "parseInt10 s =
     (let s1 = dropWhile is_ws s;
          s2 = (if starts_with ''-'' s1 \<or> starts_with ''+'' s1 then tl s1 else s1);
          z = takeWhile is_digit s2
      in if z = [] then NaN
         else Num (if starts_with ''-'' s1 then - digits_value z else digits_value z))"

text \<open>\<open>xs.push(...)\<close> on a field that holds an array.\<close>

definition push :: "'a list \<Rightarrow> 'a list option \<Rightarrow> 'a list option" where
  "push new xs = map_option (\<lambda>old. old @ new) xs"

text \<open>\<open>obj[key] = value\<close> on a field that holds a dictionary.\<close>

definition assign :: "string \<Rightarrow> string \<Rightarrow> dict option \<Rightarrow> dict option" where
  "assign k v d = map_option (AList.update k v) d"

text \<open>\<open>if (xs.length === 0) delete ...\<close>\<close>

definition delete_if_empty :: "'a list option \<Rightarrow> 'a list option" where
  "delete_if_empty xs = (case xs of Some [] \<Rightarrow> None | _ \<Rightarrow> xs)"

definition newEvent :: IcsEvent where
  "newEvent =
     \<lparr>uid = None, dtstamp = None, dtstart = None, dtend = None, duration = None,
      summary = None, description = None, location = None, status = None, eclass = None,
      transp = None, priority = None, sequence = None, created = None, lastModified = None,
      url = None, geo = None, recurid = None, rrule = None, organizer = None,
      attendee = Some [], categories = Some [], comment = Some [], contact = Some [],
      attach = Some [], exdate = Some [], related = Some [], resources = Some [],
      rdate = Some [], customProperties = Some []\<rparr>"

text \<open>The \<open>switch\<close> of \<open>parseEventBlock\<close> on one property.\<close>

definition eventProperty :: "IcsEvent \<Rightarrow> PropertyToken \<Rightarrow> IcsEvent" where
  "eventProperty event prop =
     (let n = name prop; v = pvalue prop in
      if n = ''UID'' then event\<lparr>uid := Some v\<rparr>
      else if n = ''DTSTAMP'' then event\<lparr>dtstamp := Some v\<rparr>
      else if n = ''DTSTART'' then event\<lparr>dtstart := Some v\<rparr>
      else if n = ''DTEND'' then event\<lparr>dtend := Some v\<rparr>
      else if n = ''DURATION'' then event\<lparr>duration := Some v\<rparr>
      else if n = ''SUMMARY'' then event\<lparr>summary := Some v\<rparr>
      else if n = ''DESCRIPTION'' then event\<lparr>description := Some v\<rparr>
      else if n = ''LOCATION'' then event\<lparr>location := Some v\<rparr>
      else if n = ''STATUS'' then event\<lparr>status := Some v\<rparr>
      else if n = ''CLASS'' then event\<lparr>eclass := Some v\<rparr>
      else if n = ''TRANSP'' then event\<lparr>transp := Some v\<rparr>
      else if n = ''PRIORITY'' then event\<lparr>priority := Some (parseInt10 v)\<rparr>
      else if n = ''SEQUENCE'' then event\<lparr>sequence := Some (parseInt10 v)\<rparr>
      else if n = ''CREATED'' then event\<lparr>created := Some v\<rparr>
      else if n = ''LAST-MODIFIED'' then event\<lparr>lastModified := Some v\<rparr>
      else if n = ''URL'' then event\<lparr>url := Some v\<rparr>
      else if n = ''GEO'' then event\<lparr>geo := Some v\<rparr>
      else if n = ''RECURID'' then event\<lparr>recurid := Some v\<rparr>
      else if n = ''RRULE'' then event\<lparr>rrule := Some v\<rparr>
      else if n = ''ORGANIZER'' then
        event\<lparr>organizer := Some (parsePersonProperty v (parameters prop))\<rparr>
      else if n = ''ATTENDEE'' then
        event\<lparr>attendee := push [parsePersonProperty v (parameters prop)] (attendee event)\<rparr>
      else if n = ''CATEGORIES'' then
        event\<lparr>categories := push (splitCommaSeparated v) (categories event)\<rparr>
      else if n = ''COMMENT'' then event\<lparr>comment := push [v] (comment event)\<rparr>
      else if n = ''CONTACT'' then event\<lparr>contact := push [v] (contact event)\<rparr>
      else if n = ''ATTACH'' then event\<lparr>attach := push [v] (attach event)\<rparr>
      else if n = ''EXDATE'' then event\<lparr>exdate := push (splitCommaSeparated v) (exdate event)\<rparr>
      else if n = ''RELATED'' then event\<lparr>related := push [v] (related event)\<rparr>
      else if n = ''RESOURCES'' then
        event\<lparr>resources := push (splitCommaSeparated v) (resources event)\<rparr>
      else if n = ''RDATE'' then event\<lparr>rdate := push (splitCommaSeparated v) (rdate event)\<rparr>
      else if starts_with ''X-'' n then
        event\<lparr>customProperties := assign n v (customProperties event)\<rparr>
      else event)"

text \<open>"Clean up empty arrays", and the empty dictionary of custom properties.\<close>

definition eventCleanup :: "IcsEvent \<Rightarrow> IcsEvent" where
  "eventCleanup event =
     event\<lparr>attendee := delete_if_empty (attendee event),
           categories := delete_if_empty (categories event),
           comment := delete_if_empty (comment event),
           contact := delete_if_empty (contact event),
           attach := delete_if_empty (attach event),
           exdate := delete_if_empty (exdate event),
           related := delete_if_empty (related event),
           resources := delete_if_empty (resources event),
           rdate := delete_if_empty (rdate event),
           customProperties := delete_if_empty (customProperties event)\<rparr>"

text \<open>The candidate event, before validation.\<close>

definition eventCandidate :: "ComponentBlock \<Rightarrow> IcsEvent" where
  "eventCandidate block = eventCleanup (foldl eventProperty newEvent (properties block))"

definition parseEventBlock :: "externals \<Rightarrow> ComponentBlock \<Rightarrow> string + IcsEvent" where
  "parseEventBlock ext block = icsEventSchema_parse ext (eventCandidate block)"

definition todoProperty :: "IcsTodo \<Rightarrow> PropertyToken \<Rightarrow> IcsTodo" where
  "todoProperty todo prop =
     (let n = name prop; v = pvalue prop in
      if n = ''UID'' then todo\<lparr>todo_uid := Some v\<rparr>
      else if n = ''DTSTAMP'' then todo\<lparr>todo_dtstamp := Some v\<rparr>
      else if n = ''SUMMARY'' then todo\<lparr>todo_summary := Some v\<rparr>
      else if n = ''DESCRIPTION'' then todo\<lparr>todo_description := Some v\<rparr>
      else if n = ''PRIORITY'' then todo\<lparr>todo_priority := Some (parseInt10 v)\<rparr>
      else if n = ''STATUS'' then todo\<lparr>todo_status := Some v\<rparr>
      else if n = ''DUE'' then todo\<lparr>todo_due := Some v\<rparr>
      else if n = ''COMPLETED'' then todo\<lparr>todo_completed := Some v\<rparr>
      else if n = ''PERCENT-COMPLETE'' then todo\<lparr>todo_percentComplete := Some (parseInt10 v)\<rparr>
      else if starts_with ''X-'' n then
        todo\<lparr>todo_customProperties := assign n v (todo_customProperties todo)\<rparr>
      else todo)"

definition parseTodoBlock :: "ComponentBlock \<Rightarrow> IcsTodo" where
  "parseTodoBlock block =
     (let todo = foldl todoProperty
                   \<lparr>todo_uid = None, todo_dtstamp = None, todo_summary = None,
                    todo_description = None, todo_priority = None, todo_status = None,
                    todo_due = None, todo_completed = None, todo_percentComplete = None,
                    todo_customProperties = Some []\<rparr>
                   (properties block)
      in todo\<lparr>todo_customProperties := delete_if_empty (todo_customProperties todo)\<rparr>)"

definition journalProperty :: "IcsJournal \<Rightarrow> PropertyToken \<Rightarrow> IcsJournal" where
  "journalProperty journal prop =
     (let n = name prop; v = pvalue prop in
      if n = ''UID'' then journal\<lparr>journal_uid := Some v\<rparr>
      else if n = ''DTSTAMP'' then journal\<lparr>journal_dtstamp := Some v\<rparr>
      else if n = ''SUMMARY'' then journal\<lparr>journal_summary := Some v\<rparr>
      else if n = ''DESCRIPTION'' then journal\<lparr>journal_description := Some v\<rparr>
      else if n = ''DTSTART'' then journal\<lparr>journal_dtstart := Some v\<rparr>
      else if starts_with ''X-'' n then
        journal\<lparr>journal_customProperties := assign n v (journal_customProperties journal)\<rparr>
      else journal)"

definition parseJournalBlock :: "ComponentBlock \<Rightarrow> IcsJournal" where
  "parseJournalBlock block =
     (let journal = foldl journalProperty
                      \<lparr>journal_uid = None, journal_dtstamp = None, journal_summary = None,
                       journal_description = None, journal_dtstart = None,
                       journal_customProperties = Some []\<rparr>
                      (properties block)
      in journal\<lparr>journal_customProperties :=
                   delete_if_empty (journal_customProperties journal)\<rparr>)"

definition freebusyProperty :: "IcsFreeBusy \<Rightarrow> PropertyToken \<Rightarrow> IcsFreeBusy" where
  "freebusyProperty freebusy prop =
     (let n = name prop; v = pvalue prop in
      if n = ''UID'' then freebusy\<lparr>fb_uid := Some v\<rparr>
      else if n = ''DTSTAMP'' then freebusy\<lparr>fb_dtstamp := Some v\<rparr>
      else if n = ''ORGANIZER'' then freebusy\<lparr>fb_organizer := Some v\<rparr>
      else if n = ''DTSTART'' then freebusy\<lparr>fb_dtstart := Some v\<rparr>
      else if n = ''DTEND'' then freebusy\<lparr>fb_dtend := Some v\<rparr>
      else if n = ''FREEBUSY'' then freebusy\<lparr>fb_freebusy := push [v] (fb_freebusy freebusy)\<rparr>
      else if starts_with ''X-'' n then
        freebusy\<lparr>fb_customProperties := assign n v (fb_customProperties freebusy)\<rparr>
      else freebusy)"

definition parseFreebusyBlock :: "ComponentBlock \<Rightarrow> IcsFreeBusy" where
  "parseFreebusyBlock block =
     (let freebusy = foldl freebusyProperty
                       \<lparr>fb_uid = None, fb_dtstamp = None, fb_organizer = None,
                        fb_dtstart = None, fb_dtend = None, fb_freebusy = Some [],
                        fb_customProperties = Some []\<rparr>
                       (properties block)
      in freebusy\<lparr>fb_customProperties := delete_if_empty (fb_customProperties freebusy),
                  fb_freebusy := delete_if_empty (fb_freebusy freebusy)\<rparr>)"

text \<open>\<open>`${prop.name}:${prop.value}`\<close>\<close>

definition propertyText :: "PropertyToken \<Rightarrow> string" where
  "propertyText prop = name prop @ '':'' @ pvalue prop"

definition parseTimezoneBlock :: "ComponentBlock \<Rightarrow> IcsTimezone" where
  "parseTimezoneBlock block =
     \<lparr>tzid = foldl (\<lambda>t prop. if name prop = ''TZID'' then pvalue prop else t) []
               (properties block),
      tz_rawData =
        join [LF]
          (map propertyText (properties block)
           @ concat (map (\<lambda>subComp. [''BEGIN:'' @ ctype subComp]
                                      @ map propertyText (properties subComp)
                                      @ [''END:'' @ ctype subComp])
                      (subComponents block)))\<rparr>"

definition newCalendar :: IcsCalendar where
  "newCalendar =
     \<lparr>version = None, prodid = None, calscale = None, cal_method = None, calname = None,
      caldesc = None, timezone = None, refreshInterval = None, events = [], todos = [],
      journals = [], freebusys = [], timezones = [], unparsedComponents = [],
      cal_customProperties = []\<rparr>"

definition calendarProperty :: "IcsCalendar \<Rightarrow> PropertyToken \<Rightarrow> IcsCalendar" where
  "calendarProperty calendar prop =
     (let n = name prop; v = pvalue prop in
      if n = ''VERSION'' then calendar\<lparr>version := Some v\<rparr>
      else if n = ''PRODID'' then calendar\<lparr>prodid := Some v\<rparr>
      else if n = ''CALSCALE'' then calendar\<lparr>calscale := Some v\<rparr>
      else if n = ''METHOD'' then calendar\<lparr>cal_method := Some v\<rparr>
      else if n = ''X-WR-CALNAME'' then calendar\<lparr>calname := Some v\<rparr>
      else if n = ''X-WR-CALDESC'' then calendar\<lparr>caldesc := Some v\<rparr>
      else if n = ''X-WR-TIMEZONE'' then calendar\<lparr>timezone := Some v\<rparr>
      else if n = ''X-PUBLISHED-TTL'' \<or> n = ''REFRESH-INTERVAL'' then
        calendar\<lparr>refreshInterval := Some v\<rparr>
      else if starts_with ''X-'' n then
        calendar\<lparr>cal_customProperties := AList.update n v (cal_customProperties calendar)\<rparr>
      else calendar)"

text \<open>
  The \<open>switch\<close> of \<open>parseCalendarBlock\<close> on one sub-component, with the console output so
  far. Only \<open>parseEventBlock\<close> can throw; the error is caught here and printed when \<open>debug\<close>
  is set. The mappers of the other four kinds return the candidate unvalidated and throw
  nothing.
\<close>

definition calendarSubComponent ::
  "externals \<Rightarrow> bool \<Rightarrow> IcsCalendar \<times> console list \<Rightarrow> ComponentBlock
   \<Rightarrow> IcsCalendar \<times> console list" where
  "calendarSubComponent ext debug st subComponent =
     (case st of (calendar, out) \<Rightarrow>
      if ctype subComponent = ''VEVENT'' then
        (case parseEventBlock ext subComponent of
           Inr event \<Rightarrow> (calendar\<lparr>events := events calendar @ [event]\<rparr>, out)
         | Inl msg \<Rightarrow>
             (calendar,
              out @ (if debug then [ConsoleWarn (''Failed to parse event: '' @ msg)] else [])))
      else if ctype subComponent = ''VTODO'' then
        (calendar\<lparr>todos := todos calendar @ [parseTodoBlock subComponent]\<rparr>, out)
      else if ctype subComponent = ''VJOURNAL'' then
        (calendar\<lparr>journals := journals calendar @ [parseJournalBlock subComponent]\<rparr>, out)
      else if ctype subComponent = ''VFREEBUSY'' then
        (calendar\<lparr>freebusys := freebusys calendar @ [parseFreebusyBlock subComponent]\<rparr>, out)
      else if ctype subComponent = ''VTIMEZONE'' then
        (calendar\<lparr>timezones := timezones calendar @ [parseTimezoneBlock subComponent]\<rparr>, out)
      else
        (calendar\<lparr>unparsedComponents := unparsedComponents calendar
            @ [\<lparr>utype = ctype subComponent, rawData = json_stringify ext subComponent\<rparr>]\<rparr>,
         out))"

definition parseCalendarBlock ::
  "externals \<Rightarrow> ComponentBlock \<Rightarrow> bool \<Rightarrow> (string + IcsCalendar) \<times> console list" where
  "parseCalendarBlock ext block debug =
     (case foldl (calendarSubComponent ext debug)
             (foldl calendarProperty newCalendar (properties block), [])
             (subComponents block) of
        (calendar, out) \<Rightarrow> (icsCalendarSchema_parse ext calendar, out))"

section \<open>Aggregator (parseIcsData.ts, parseIcsData)\<close>

definition separator :: console where
  "separator = ConsoleLog ([LF] @ replicate 50 (CHR ''='') @ [LF])"

text \<open>The variables of \<open>parseIcsData\<close> that the loop over the root blocks changes.\<close>

record collected =
  cals :: "IcsCalendar list"
  errors :: "string list"
  warnings :: "string list"
  printed :: "console list"

definition rootBlock :: "externals \<Rightarrow> bool \<Rightarrow> collected \<Rightarrow> ComponentBlock \<Rightarrow> collected" where
  "rootBlock ext debug st block =
     (if ctype block = ''VCALENDAR'' then
        (case parseCalendarBlock ext block debug of
           (Inr calendar, out) \<Rightarrow>
             st\<lparr>cals := cals st @ [calendar], printed := printed st @ out\<rparr>
         | (Inl msg, out) \<Rightarrow>
             st\<lparr>errors := errors st @ [''Failed to parse calendar: '' @ msg],
                printed := printed st @ out
                  @ (if debug then [ConsoleError (''Failed to parse calendar: '' @ msg)]
                     else [])\<rparr>)
      else st\<lparr>warnings := warnings st @ [''Unexpected root component: '' @ ctype block]\<rparr>)"

text \<open>The result of the outer \<open>catch\<close>.\<close>

definition criticalResult :: "string list \<Rightarrow> string list \<Rightarrow> string \<Rightarrow> ParsedIcsData" where
  "criticalResult errs warns msg =
     \<lparr>calendars = [],
      metadata = \<lparr>totalEvents = 0, totalTodos = 0, totalJournals = 0, totalFreebusys = 0,
                  totalTimezones = 0,
                  parseErrors = errs @ [''Critical parsing error: '' @ msg],
                  parseWarnings = warns\<rparr>\<rparr>"

text \<open>Step 4 of \<open>parseIcsData\<close>: the metadata, each count a \<open>reduce\<close> over the calendars.\<close>

definition makeResult :: "IcsCalendar list \<Rightarrow> string list \<Rightarrow> string list \<Rightarrow> ParsedIcsData" where
  "makeResult cs errs warns =
     \<lparr>calendars = cs,
      metadata =
        \<lparr>totalEvents = foldl (\<lambda>sum cal. sum + length (events cal)) 0 cs,
         totalTodos = foldl (\<lambda>sum cal. sum + length (todos cal)) 0 cs,
         totalJournals = foldl (\<lambda>sum cal. sum + length (journals cal)) 0 cs,
         totalFreebusys = foldl (\<lambda>sum cal. sum + length (freebusys cal)) 0 cs,
         totalTimezones = foldl (\<lambda>sum cal. sum + length (timezones cal)) 0 cs,
         parseErrors = errs,
         parseWarnings = warns\<rparr>\<rparr>"

text \<open>
  Steps 3 and 4 of \<open>parseIcsData\<close>, with the final console output: the result assembled
  from the root blocks, after the console output \<open>out\<close> of the steps before.
\<close>

definition assemble ::
  "externals \<Rightarrow> bool \<Rightarrow> ComponentBlock list \<Rightarrow> console list \<Rightarrow> ParsedIcsData \<times> console list" where
  "assemble ext debug rootBlocks out =
     (let st = foldl (rootBlock ext debug)
                 \<lparr>cals = [], errors = [], warnings = [], printed = out\<rparr> rootBlocks;
          result = makeResult (cals st) (errors st) (warnings st)
      in (result,
          printed st
          @ (if debug
             then [ConsoleLog ''Final parsed result:'', LogResult result, separator,
                   ConsoleLog ''Human-readable events:'', LogCalendars (cals st)]
             else [])))"

text \<open>
  \<open>parseIcsData\<close>: the value the promise resolves to, and the console output. The only
  error that reaches the outer \<open>catch\<close> is the one \<open>parseIntoBlocks\<close> throws, when no error
  or warning has been collected yet.
\<close>

definition parseIcsData :: "externals \<Rightarrow> string \<Rightarrow> bool \<Rightarrow> ParsedIcsData \<times> console list" where
  "parseIcsData ext data debug =
     (let out1 = (if debug then [ConsoleLog ''Raw ICS data:'', ConsoleLog data, separator]
                  else []);
          lines = unfoldLines data;
          out2 = out1 @ (if debug
                         then [ConsoleLog ''Unfolded lines:'']
                              @ map (\<lambda>(i, l). ConsoleLog (show_nat (i + 1) @ '': '' @ l))
                                  (enumerate 0 lines)
                              @ [separator]
                         else [])
      in case parseIntoBlocks lines debug of
           (Inl msg, out) \<Rightarrow> (criticalResult [] [] msg, out2 @ out)
         | (Inr rootBlocks, out) \<Rightarrow>
             assemble ext debug rootBlocks
               (out2 @ out
                @ (if debug
                   then [ConsoleLog ''Parsed component blocks:'', LogBlocks rootBlocks, separator]
                   else [])))"

text \<open>
  The library checks used in the examples: every address and every URL passes, the
  messages and the serialisation are empty. The examples hold no address and no URL.
\<close>

definition example_externals :: externals where
  "example_externals =
     \<lparr>is_email = (\<lambda>s. True), is_url = (\<lambda>s. True), event_issues = (\<lambda>e. []),
      calendar_issues = (\<lambda>c. []), json_stringify = (\<lambda>b. [])\<rparr>"


section \<open>Notions used by the properties\<close>

text \<open>
  The split point in the words of the specification: the first colon that no backslash
  escapes, a backslash escaping the character after it.
\<close>

fun spec_unescaped_colon :: "string \<Rightarrow> nat option" where
  "spec_unescaped_colon [] = None"
| "spec_unescaped_colon [c] = (if c = CHR '':'' then Some 0 else None)"
| "spec_unescaped_colon (c # d # rest) =
     (if c = BSL then map_option (\<lambda>i. i + 2) (spec_unescaped_colon rest)
      else if c = CHR '':'' then Some 0
      else map_option Suc (spec_unescaped_colon (d # rest)))"

text \<open>The \<open>case\<close> labels of the \<open>switch\<close> of \<open>parseEventBlock\<close>.\<close>

definition eventFieldNames :: "string list" where
  "eventFieldNames =
     [''UID'', ''DTSTAMP'', ''DTSTART'', ''DTEND'', ''DURATION'', ''SUMMARY'', ''DESCRIPTION'',
      ''LOCATION'', ''STATUS'', ''CLASS'', ''TRANSP'', ''PRIORITY'', ''SEQUENCE'', ''CREATED'',
      ''LAST-MODIFIED'', ''URL'', ''GEO'', ''RECURID'', ''RRULE'', ''ORGANIZER'', ''ATTENDEE'',
      ''CATEGORIES'', ''COMMENT'', ''CONTACT'', ''ATTACH'', ''EXDATE'', ''RELATED'',
      ''RESOURCES'', ''RDATE'']"

text \<open>
  The types of the components that are still open after the last line, outermost first:
  the stack that \<open>parseIntoBlocks\<close> tests after its loop.
\<close>

definition unclosed :: "string list \<Rightarrow> string list" where
  "unclosed lines =
     map ctype (rev (stack (fst (blocksLoop False 0 lines (\<lparr>blocks = [], stack = []\<rparr>, [])))))"

text \<open>What the loop over the root blocks has collected for the result, console apart.\<close>

definition collected_core :: "collected \<Rightarrow> IcsCalendar list \<times> string list \<times> string list" where
  "collected_core st = (cals st, errors st, warnings st)"

text \<open>Whether a block has a property of a given name.\<close>

definition has_property :: "string \<Rightarrow> ComponentBlock \<Rightarrow> bool" where
  "has_property n block = (n \<in> set (map name (properties block)))"

section \<open>Example inputs\<close>

text \<open>A document made of the given lines, each one ended by CRLF.\<close>

definition ics :: "string list \<Rightarrow> string" where
  "ics ls = concat (map (\<lambda>l. l @ [CR, LF]) ls)"

text \<open>One calendar with one event: the scenario of the specification.\<close>

definition meeting_input :: string where
  "meeting_input =
     ics [''BEGIN:VCALENDAR'', ''VERSION:2.0'', ''PRODID:-//Test//Test//EN'',
          ''BEGIN:VEVENT'', ''UID:a@b'', ''DTSTAMP:20231201T120000Z'',
          ''DTSTART:20231215T140000Z'', ''DTEND:20231215T150000Z'', ''SUMMARY:Team Meeting'',
          ''END:VEVENT'', ''END:VCALENDAR'']"

text \<open>A calendar whose event is never closed.\<close>

definition unclosed_event_input :: string where
  "unclosed_event_input =
     ics [''BEGIN:VCALENDAR'', ''VERSION:2.0'', ''PRODID:-//Test//Test//EN'',
          ''BEGIN:VEVENT'', ''UID:a@b'', ''DTSTAMP:20231201T120000Z'',
          ''END:VCALENDAR'']"

text \<open>An event with both DTEND and DURATION, next to a valid one.\<close>

definition dtend_duration_input :: string where
  "dtend_duration_input =
     ics [''BEGIN:VCALENDAR'', ''VERSION:2.0'', ''PRODID:-//Test//Test//EN'',
          ''BEGIN:VEVENT'', ''UID:bad@b'', ''DTSTAMP:20231201T120000Z'',
          ''DTEND:20231215T150000Z'', ''DURATION:PT1H'', ''END:VEVENT'',
          ''BEGIN:VEVENT'', ''UID:good@b'', ''DTSTAMP:20231201T120000Z'', ''END:VEVENT'',
          ''END:VCALENDAR'']"

text \<open>An event with the categories line of the specification's scenario.\<close>

definition categories_input :: string where
  "categories_input =
     ics [''BEGIN:VCALENDAR'', ''VERSION:2.0'', ''PRODID:-//Test//Test//EN'',
          ''BEGIN:VEVENT'', ''UID:a@b'', ''DTSTAMP:20231201T120000Z'',
          ''CATEGORIES:Work'' @ [BSL] @ '',Fun,Travel'', ''END:VEVENT'', ''END:VCALENDAR'']"

section \<open>Properties of the line unfolder\<close>

lemma remove_crlf_fold_Cons: "a \<noteq> CR \<Longrightarrow> remove_crlf_fold (a # s) = a # remove_crlf_fold s"
  by (cases s rule: remove_crlf_fold.cases) auto

lemma remove_crlf_fold_id: "CR \<notin> set s \<Longrightarrow> remove_crlf_fold s = s"
  by (induction s) (auto simp: remove_crlf_fold_Cons)

lemma remove_crlf_fold_at:
  "CR \<notin> set xs \<Longrightarrow> CR \<notin> set ys \<Longrightarrow> remove_crlf_fold (xs @ CR # LF # SP # ys) = xs @ ys"
  by (induction xs) (auto simp: remove_crlf_fold_Cons remove_crlf_fold_id)

lemma remove_lf_fold_Cons: "a \<noteq> LF \<Longrightarrow> remove_lf_fold (a # s) = a # remove_lf_fold s"
  by (cases s) auto

lemma remove_lf_fold_id: "LF \<notin> set s \<Longrightarrow> remove_lf_fold s = s"
  by (induction s) (auto simp: remove_lf_fold_Cons)

lemma normalize_eol_id: "LF \<notin> set s \<Longrightarrow> normalize_eol s = s"
  by (induction s rule: normalize_eol.induct) auto

lemma split_on_absent: "c \<notin> set s \<Longrightarrow> split_on c s = [s]"
  by (induction s) auto

text \<open>
  C7, as stated, fails on a blank line: the line made of one space, folded at offset 0,
  unfolds to no line at all, because \<open>unfoldLines\<close> filters out the lines that are empty
  after \<open>trim\<close>.
\<close>

theorem unfoldLines_blank_counterexample:
  "unfoldLines (fold_at 0 '' '') = [] \<and> unfoldLines (fold_at 0 '' '') \<noteq> ['' '']"
  by (simp add: unfoldLines_def fold_at_def js_trim_def is_ws_def CR_def LF_def SP_def TAB_def)

text \<open>
  C7, amended: a line \<open>l\<close> without CR and LF that has a character other than white space,
  folded by CRLF and a space at any offset \<open>i\<close> within it, unfolds to exactly the one line
  \<open>l\<close>.
\<close>

theorem unfoldLines_fold_at:
  assumes "CR \<notin> set l" and "LF \<notin> set l" and "js_trim l \<noteq> []" and "i \<le> length l"
  shows "unfoldLines (fold_at i l) = [l]"
proof -
  have "CR \<notin> set (take i l)" "CR \<notin> set (drop i l)"
    using assms(1) by (auto dest: in_set_takeD in_set_dropD)
  then have "remove_crlf_fold (fold_at i l) = l"
    by (simp add: fold_at_def remove_crlf_fold_at)
  then show ?thesis
    using assms(2,3)
    by (simp add: unfoldLines_def remove_lf_fold_id normalize_eol_id split_on_absent)
qed

theorem unfoldLines_fold_at_witness:
  "unfoldLines (fold_at 2 ''abcd'') = [''abcd'']"
proof -
  have h1: "CR \<notin> set ''abcd''" by (simp add: CR_def)
  have h2: "LF \<notin> set ''abcd''" by (simp add: LF_def)
  have h3: "js_trim ''abcd'' \<noteq> []"
    by (simp add: js_trim_def is_ws_def TAB_def SP_def LF_def CR_def)
  have h4: "2 \<le> length ''abcd''" by simp
  show ?thesis by (rule unfoldLines_fold_at [OF h1 h2 h3 h4])
qed

section \<open>Properties of the tokenizer\<close>

lemma replace2_id: "a \<notin> set s \<Longrightarrow> replace2 a b r s = s"
  by (induction a b r s rule: replace2.induct) auto

text \<open>A value without a backslash is left as it is.\<close>

lemma unescapeValue_no_backslash: "BSL \<notin> set v \<Longrightarrow> unescapeValue v = v"
  by (simp add: unescapeValue_def replace2_id)

lemma replace2_Cons: "x \<noteq> a \<Longrightarrow> replace2 a b r (x # s) = x # replace2 a b r s"
  by (cases s) auto

lemma replace2_concat_map:
  assumes "\<forall>c \<in> set v. f c = [BSL, b] \<or> (\<exists>x. f c = [BSL, x] \<and> x \<noteq> b \<and> x \<noteq> BSL)
                         \<or> (\<exists>y. f c = [y] \<and> y \<noteq> BSL)"
  shows "replace2 BSL b r (concat (map f v))
           = concat (map (\<lambda>c. if f c = [BSL, b] then r else f c) v)"
  using assms
proof (induction v)
  case Nil
  then show ?case by simp
next
  case (Cons c v)
  then have IH: "replace2 BSL b r (concat (map f v))
                   = concat (map (\<lambda>c. if f c = [BSL, b] then r else f c) v)"
    by simp
  consider "f c = [BSL, b]" | x where "f c = [BSL, x]" "x \<noteq> b" "x \<noteq> BSL"
    | y where "f c = [y]" "y \<noteq> BSL"
    using Cons.prems by auto
  then show ?case
  proof cases
    case 1
    then show ?thesis using IH by simp
  next
    case 2
    then show ?thesis using IH by (simp add: replace2_Cons)
  next
    case 3
    then show ?thesis using IH by (simp add: replace2_Cons)
  qed
qed

text \<open>
  Escaping and then unescaping gives the value back when the value has no backslash.
\<close>

lemma unescape_escape_no_backslash:
  assumes "BSL \<notin> set v"
  shows "unescapeValue (spec_escapeValue v) = v"
proof -
  let ?f0 = spec_escape_char
  let ?f1 = "\<lambda>c. if ?f0 c = [BSL, CHR ''n''] then [LF] else ?f0 c"
  let ?f2 = "\<lambda>c. if ?f1 c = [BSL, CHR ''r''] then [CR] else ?f1 c"
  let ?f3 = "\<lambda>c. if ?f2 c = [BSL, CHR ''t''] then [TAB] else ?f2 c"
  let ?f4 = "\<lambda>c. if ?f3 c = [BSL, CHR '';''] then '';'' else ?f3 c"
  let ?f5 = "\<lambda>c. if ?f4 c = [BSL, CHR '',''] then '','' else ?f4 c"
  have ne: "\<forall>c \<in> set v. c \<noteq> BSL" using assms by auto
  have 1: "replace2 BSL (CHR ''n'') [LF] (concat (map ?f0 v)) = concat (map ?f1 v)"
    using ne by (intro replace2_concat_map)
       (auto simp: spec_escape_char_def BSL_def LF_def CR_def TAB_def)
  have 2: "replace2 BSL (CHR ''r'') [CR] (concat (map ?f1 v)) = concat (map ?f2 v)"
    using ne by (intro replace2_concat_map)
       (auto simp: spec_escape_char_def BSL_def LF_def CR_def TAB_def)
  have 3: "replace2 BSL (CHR ''t'') [TAB] (concat (map ?f2 v)) = concat (map ?f3 v)"
    using ne by (intro replace2_concat_map)
       (auto simp: spec_escape_char_def BSL_def LF_def CR_def TAB_def)
  have 4: "replace2 BSL (CHR '';'') '';'' (concat (map ?f3 v)) = concat (map ?f4 v)"
    using ne by (intro replace2_concat_map)
       (auto simp: spec_escape_char_def BSL_def LF_def CR_def TAB_def)
  have 5: "replace2 BSL (CHR '','') '','' (concat (map ?f4 v)) = concat (map ?f5 v)"
    using ne by (intro replace2_concat_map)
       (auto simp: spec_escape_char_def BSL_def LF_def CR_def TAB_def)
  have "\<forall>c \<in> set v. ?f5 c = [c]"
    using ne by (auto simp: spec_escape_char_def BSL_def LF_def CR_def TAB_def)
  then have "map ?f5 v = map (\<lambda>c. [c]) v" by (intro map_cong) auto
  then have 6: "concat (map ?f5 v) = v" by (simp only: concat_map_singleton) simp
  have "unescapeValue (spec_escapeValue v) = replace2 BSL BSL [BSL] (concat (map ?f5 v))"
    unfolding unescapeValue_def spec_escapeValue_def by (simp only: 1 2 3 4 5)
  also have "\<dots> = v" using assms by (simp add: 6 replace2_id)
  finally show ?thesis .
qed

text \<open>
  C4, the round trip, fails in the code. The value "backslash, n" is escaped to
  "backslash, backslash, n"; the first replacement of \<open>unescapeValue\<close> reads the second
  backslash and the n as an escaped newline, and the result is "backslash, newline", not
  the value escaped.
\<close>

theorem unescapeValue_escaped_backslash_n:
  "spec_escapeValue [BSL, CHR ''n''] = [BSL, BSL, CHR ''n''] \<and>
   unescapeValue (spec_escapeValue [BSL, CHR ''n'']) = [BSL, LF] \<and>
   unescapeValue (spec_escapeValue [BSL, CHR ''n'']) \<noteq> [BSL, CHR ''n'']"
  by (simp add: spec_escapeValue_def spec_escape_char_def unescapeValue_def
        BSL_def LF_def CR_def TAB_def)

text \<open>
  C10: the \<open>rsvp\<close> field of the person record is never \<open>false\<close>; it is \<open>true\<close> exactly
  when the RSVP parameter is the string \<open>TRUE\<close>, and absent in every other case.
\<close>

theorem parsePersonProperty_rsvp:
  "rsvp (parsePersonProperty v params) \<noteq> Some False \<and>
   (rsvp (parsePersonProperty v params) = Some True) = (map_of params ''RSVP'' = Some ''TRUE'') \<and>
   (rsvp (parsePersonProperty v params) = None) = (map_of params ''RSVP'' \<noteq> Some ''TRUE'')"
  by (simp add: parsePersonProperty_def bool_or_undefined_def)

theorem parsePersonProperty_rsvp_witness:
  "rsvp (parsePersonProperty ''mailto:a@b.c'' [(''RSVP'', ''FALSE'')]) = None \<and>
   rsvp (parsePersonProperty ''mailto:a@b.c'' [(''RSVP'', ''true'')]) = None \<and>
   rsvp (parsePersonProperty ''mailto:a@b.c'' []) = None \<and>
   rsvp (parsePersonProperty ''mailto:a@b.c'' [(''RSVP'', ''TRUE'')]) = Some True"
  using parsePersonProperty_rsvp [of "''mailto:a@b.c''" "[(''RSVP'', ''FALSE'')]"]
        parsePersonProperty_rsvp [of "''mailto:a@b.c''" "[(''RSVP'', ''true'')]"]
        parsePersonProperty_rsvp [of "''mailto:a@b.c''" "[]"]
        parsePersonProperty_rsvp [of "''mailto:a@b.c''" "[(''RSVP'', ''TRUE'')]"]
  by simp

lemma index_of_None: "(index_of c s = None) = (c \<notin> set s)"
  by (induction s) auto

lemma index_of_Some:
  "index_of c s = Some i \<Longrightarrow>
     take i s = takeWhile (\<lambda>x. x \<noteq> c) s \<and> drop (i + 1) s = tl (dropWhile (\<lambda>x. x \<noteq> c) s)"
  by (induction s arbitrary: i) (auto split: if_splits)

text \<open>
  C3, as stated, fails on a line with an escaped colon. In "A, backslash, colon, B, colon,
  C" the first unescaped colon is at offset 4, but the code splits at offset 2, the
  escaped colon; and "A, backslash, colon, B", which has no unescaped colon, is not
  rejected.
\<close>

theorem parsePropertyLine_escaped_colon_counterexample:
  "spec_unescaped_colon (''A'' @ [BSL] @ '':B:C'') = Some 4 \<and>
   parsePropertyLine (''A'' @ [BSL] @ '':B:C'')
     = Inr \<lparr>name = ''A'' @ [BSL], parameters = [], pvalue = ''B:C''\<rparr> \<and>
   spec_unescaped_colon (''A'' @ [BSL] @ '':B'') = None \<and>
   parsePropertyLine (''A'' @ [BSL] @ '':B'')
     = Inr \<lparr>name = ''A'' @ [BSL], parameters = [], pvalue = ''B''\<rparr>"
  by (simp add: parsePropertyLine_def unescapeValue_def toUpperCase_def upper_char_def
        BSL_def LF_def CR_def TAB_def)

text \<open>
  C3, amended: \<open>parsePropertyLine\<close> splits the line at its first colon, whether a backslash
  stands before it or not. The text before that colon is the name and parameter segment
  (the name up to the first semicolon, upper-cased, the parameters after it), the text
  after it is the raw value, which is then unescaped; the function fails with the invalid
  property line error exactly when the line has no colon at all.
\<close>

theorem parsePropertyLine_first_colon:
  "parsePropertyLine line =
     (if CHR '':'' \<in> set line then
        (let propertyPart = takeWhile (\<lambda>x. x \<noteq> CHR '':'') line in
         Inr \<lparr>name = toUpperCase (takeWhile (\<lambda>x. x \<noteq> CHR '';'') propertyPart),
              parameters = (if CHR '';'' \<in> set propertyPart
                            then parseParameters (tl (dropWhile (\<lambda>x. x \<noteq> CHR '';'') propertyPart))
                            else []),
              pvalue = unescapeValue (tl (dropWhile (\<lambda>x. x \<noteq> CHR '':'') line))\<rparr>)
      else Inl (''Invalid property line: '' @ line))"
proof (cases "index_of (CHR '':'') line")
  case None
  moreover from None have "CHR '':'' \<notin> set line"
    by (simp add: index_of_None)
  ultimately show ?thesis
    by (simp add: parsePropertyLine_def)
next
  case (Some i)
  then have colon: "CHR '':'' \<in> set line"
    using index_of_None [of "CHR '':''" line] by simp
  note split = index_of_Some [OF Some]
  show ?thesis
  proof (cases "index_of (CHR '';'') (take i line)")
    case None
    then have nosemi: "CHR '';'' \<notin> set (takeWhile (\<lambda>x. x \<noteq> CHR '':'') line)"
      using split by (simp add: index_of_None)
    then have tw: "takeWhile (\<lambda>x. x \<noteq> CHR '';'') (takeWhile (\<lambda>x. x \<noteq> CHR '':'') line)
                 = takeWhile (\<lambda>x. x \<noteq> CHR '':'') line"
      by (intro takeWhile_eq_all_conv [THEN iffD2]) auto
    show ?thesis
      using Some None colon split nosemi
      by (simp add: parsePropertyLine_def Let_def tw)
  next
    case inner: (Some j)
    then have semi: "CHR '';'' \<in> set (takeWhile (\<lambda>x. x \<noteq> CHR '':'') line)"
      using index_of_None [of "CHR '';''" "take i line"] split by simp
    show ?thesis
      using Some inner colon semi split index_of_Some [OF inner]
      by (simp add: parsePropertyLine_def Let_def)
  qed
qed

theorem parsePropertyLine_first_colon_witness:
  "parsePropertyLine ''attendee;cn=Ann:mailto:ann@example.com''
     = Inr \<lparr>name = ''ATTENDEE'', parameters = [(''CN'', ''Ann'')],
            pvalue = ''mailto:ann@example.com''\<rparr> \<and>
   parsePropertyLine ''no colon here'' = Inl ''Invalid property line: no colon here''"
  unfolding parsePropertyLine_first_colon [of "''attendee;cn=Ann:mailto:ann@example.com''"]
    parsePropertyLine_first_colon [of "''no colon here''"]
  by code_simp


section \<open>Properties of the mappers\<close>

lemma eventProperty_unrecognized:
  "name p \<notin> set eventFieldNames \<Longrightarrow> \<not> starts_with ''X-'' (name p) \<Longrightarrow> eventProperty e p = e"
  by (simp add: eventProperty_def eventFieldNames_def Let_def)

lemma dtend_kept: "dtend e \<noteq> None \<Longrightarrow> dtend (eventProperty e p) \<noteq> None"
  by (simp add: eventProperty_def Let_def)

lemma dtend_set: "name p = ''DTEND'' \<Longrightarrow> dtend (eventProperty e p) \<noteq> None"
  by (simp add: eventProperty_def Let_def)

lemma duration_kept: "duration e \<noteq> None \<Longrightarrow> duration (eventProperty e p) \<noteq> None"
  by (simp add: eventProperty_def Let_def)

lemma duration_set: "name p = ''DURATION'' \<Longrightarrow> duration (eventProperty e p) \<noteq> None"
  by (simp add: eventProperty_def Let_def)

lemma dtend_foldl:
  "dtend e \<noteq> None \<or> ''DTEND'' \<in> set (map name ps) \<Longrightarrow> dtend (foldl eventProperty e ps) \<noteq> None"
proof (induction ps arbitrary: e)
  case Nil
  then show ?case by simp
next
  case (Cons p ps)
  have "dtend (eventProperty e p) \<noteq> None \<or> ''DTEND'' \<in> set (map name ps)"
    using Cons.prems dtend_kept [of e p] dtend_set [of p e] by auto
  then show ?case using Cons.IH by simp
qed

lemma duration_foldl:
  "duration e \<noteq> None \<or> ''DURATION'' \<in> set (map name ps)
     \<Longrightarrow> duration (foldl eventProperty e ps) \<noteq> None"
proof (induction ps arbitrary: e)
  case Nil
  then show ?case by simp
next
  case (Cons p ps)
  have "duration (eventProperty e p) \<noteq> None \<or> ''DURATION'' \<in> set (map name ps)"
    using Cons.prems duration_kept [of e p] duration_set [of p e] by auto
  then show ?case using Cons.IH by simp
qed

lemma refinement_fails:
  assumes "has_property ''DTEND'' ev" and "has_property ''DURATION'' ev"
  shows "\<not> eventRefinement (eventCandidate ev)"
proof -
  have "dtend (foldl eventProperty newEvent (properties ev)) \<noteq> None"
    using assms(1) by (intro dtend_foldl) (simp add: has_property_def)
  moreover have "duration (foldl eventProperty newEvent (properties ev)) \<noteq> None"
    using assms(2) by (intro duration_foldl) (simp add: has_property_def)
  ultimately show ?thesis
    by (simp add: eventRefinement_def eventCandidate_def eventCleanup_def)
qed

lemma parseEventBlock_rejects:
  assumes "has_property ''DTEND'' ev" and "has_property ''DURATION'' ev"
  shows "parseEventBlock ext ev = Inl (event_issues ext (eventCandidate ev))"
  using refinement_fails [OF assms] by (simp add: parseEventBlock_def icsEventSchema_parse_def)

section \<open>The console is a side channel\<close>

lemma blocksLoop_fst:
  "fst (blocksLoop debug i lines (b, out)) = fst (blocksLoop debug' i lines (b, out'))"
proof (induction lines arbitrary: i b out out')
  case Nil
  show ?case by simp
next
  case (Cons l lines)
  show ?case
  proof (cases "l = [] \<or> js_trim l = []")
    case True
    then show ?thesis using Cons.IH [of "i + 1" b out out'] by auto
  next
    case False
    show ?thesis
    proof (cases "blockLine i (js_trim l) b")
      case (Inl msg)
      then show ?thesis
        using False Cons.IH [of "i + 1" b] by simp
    next
      case (Inr b')
      then show ?thesis
        using False Cons.IH [of "i + 1" b' out out'] by simp
    qed
  qed
qed

lemma parseIntoBlocks_fst: "fst (parseIntoBlocks lines debug) = fst (parseIntoBlocks lines debug')"
proof -
  obtain b out where 1: "blocksLoop debug 0 lines (\<lparr>blocks = [], stack = []\<rparr>, []) = (b, out)"
    by (cases "blocksLoop debug 0 lines (\<lparr>blocks = [], stack = []\<rparr>, [])")
  obtain b' out' where 2: "blocksLoop debug' 0 lines (\<lparr>blocks = [], stack = []\<rparr>, []) = (b', out')"
    by (cases "blocksLoop debug' 0 lines (\<lparr>blocks = [], stack = []\<rparr>, [])")
  have "b = b'"
    using blocksLoop_fst [of debug 0 lines "\<lparr>blocks = [], stack = []\<rparr>" "[]" debug' "[]"] 1 2
    by simp
  then show ?thesis by (simp add: parseIntoBlocks_def 1 2)
qed

lemma calendarSubComponent_fst:
  "fst (calendarSubComponent ext debug (c, out) sub)
     = fst (calendarSubComponent ext debug' (c, out') sub)"
  by (simp add: calendarSubComponent_def split: sum.splits)

lemma foldl_calendarSubComponent_fst:
  "fst (foldl (calendarSubComponent ext debug) (c, out) subs)
     = fst (foldl (calendarSubComponent ext debug') (c, out') subs)"
proof (induction subs arbitrary: c out out')
  case Nil
  then show ?case by simp
next
  case (Cons sub subs)
  obtain c1 o1 where 1: "calendarSubComponent ext debug (c, out) sub = (c1, o1)"
    by (cases "calendarSubComponent ext debug (c, out) sub")
  obtain c2 o2 where 2: "calendarSubComponent ext debug' (c, out') sub = (c2, o2)"
    by (cases "calendarSubComponent ext debug' (c, out') sub")
  have "c1 = c2"
    using calendarSubComponent_fst [of ext debug c out sub debug' out'] 1 2 by simp
  then show ?case using Cons.IH [of c2 o1 o2] by (simp add: 1 2)
qed

lemma parseCalendarBlock_fst:
  "fst (parseCalendarBlock ext block debug) = fst (parseCalendarBlock ext block debug')"
  using foldl_calendarSubComponent_fst
          [of ext debug "foldl calendarProperty newCalendar (properties block)" "[]"
              "subComponents block" debug' "[]"]
  by (cases "foldl (calendarSubComponent ext debug)
               (foldl calendarProperty newCalendar (properties block), []) (subComponents block)";
      cases "foldl (calendarSubComponent ext debug')
               (foldl calendarProperty newCalendar (properties block), []) (subComponents block)")
     (simp add: parseCalendarBlock_def)

lemma rootBlock_core_cong:
  assumes "collected_core st = collected_core st'" and "ctype b = ctype b'"
    and "fst (parseCalendarBlock ext b debug) = fst (parseCalendarBlock ext b' debug')"
  shows "collected_core (rootBlock ext debug st b) = collected_core (rootBlock ext debug' st' b')"
  using assms
  by (cases "parseCalendarBlock ext b debug"; cases "parseCalendarBlock ext b' debug'")
     (auto simp: rootBlock_def collected_core_def split: sum.splits)

lemma foldl_rootBlock_core:
  "collected_core st = collected_core st' \<Longrightarrow>
   collected_core (foldl (rootBlock ext debug) st bs)
     = collected_core (foldl (rootBlock ext debug') st' bs)"
proof (induction bs arbitrary: st st')
  case Nil
  then show ?case by simp
next
  case (Cons b bs)
  have "collected_core (rootBlock ext debug st b) = collected_core (rootBlock ext debug' st' b)"
    using Cons.prems parseCalendarBlock_fst [of ext b debug debug']
    by (intro rootBlock_core_cong) simp_all
  then show ?case using Cons.IH by simp
qed

lemma foldl_rootBlock_replace:
  assumes "ctype b = ctype b'"
    and "fst (parseCalendarBlock ext b debug) = fst (parseCalendarBlock ext b' debug)"
  shows "collected_core (foldl (rootBlock ext debug) st (r1 @ b # r2))
           = collected_core (foldl (rootBlock ext debug) st (r1 @ b' # r2))"
proof -
  let ?st1 = "foldl (rootBlock ext debug) st r1"
  have "collected_core (rootBlock ext debug ?st1 b) = collected_core (rootBlock ext debug ?st1 b')"
    using assms by (intro rootBlock_core_cong) simp_all
  then have "collected_core (foldl (rootBlock ext debug) (rootBlock ext debug ?st1 b) r2)
               = collected_core (foldl (rootBlock ext debug) (rootBlock ext debug ?st1 b') r2)"
    by (rule foldl_rootBlock_core)
  then show ?thesis by simp
qed

lemma assemble_fst_core:
  "fst (assemble ext debug roots out)
     = (case collected_core (foldl (rootBlock ext debug)
                               \<lparr>cals = [], errors = [], warnings = [], printed = out\<rparr> roots) of
          (cs, es, ws) \<Rightarrow> makeResult cs es ws)"
  by (simp add: assemble_def Let_def collected_core_def)

lemma assemble_fst:
  "fst (assemble ext debug roots out) = fst (assemble ext debug' roots out')"
  using foldl_rootBlock_core
          [of "\<lparr>cals = [], errors = [], warnings = [], printed = out\<rparr>"
              "\<lparr>cals = [], errors = [], warnings = [], printed = out'\<rparr>" ext debug roots debug']
  by (simp add: assemble_fst_core collected_core_def)

text \<open>
  C8: for every input, the result returned with the debug toggle set equals the result
  returned without it, in every field; the toggle only adds console output.
\<close>

theorem parseIcsData_debug_independent:
  "fst (parseIcsData ext data True) = fst (parseIcsData ext data False)"
proof -
  obtain r out where 1: "parseIntoBlocks (unfoldLines data) True = (r, out)"
    by (cases "parseIntoBlocks (unfoldLines data) True")
  obtain r' out' where 2: "parseIntoBlocks (unfoldLines data) False = (r', out')"
    by (cases "parseIntoBlocks (unfoldLines data) False")
  have eq: "r' = r"
    using parseIntoBlocks_fst [of "unfoldLines data" True False] 1 2 by simp
  show ?thesis
  proof (cases r)
    case (Inl msg)
    then show ?thesis by (simp add: parseIcsData_def 1 2 eq)
  next
    case (Inr roots)
    obtain o1 where t: "fst (parseIcsData ext data True) = fst (assemble ext True roots o1)"
      by (simp add: parseIcsData_def 1 Inr)
    obtain o2 where f: "fst (parseIcsData ext data False) = fst (assemble ext False roots o2)"
      by (simp add: parseIcsData_def 2 eq Inr)
    show ?thesis unfolding t f by (rule assemble_fst)
  qed
qed


section \<open>Claims about the mappers\<close>

lemma parseCalendarBlock_fst_eq:
  "fst (parseCalendarBlock ext block debug)
     = icsCalendarSchema_parse ext
         (fst (foldl (calendarSubComponent ext debug)
                 (foldl calendarProperty newCalendar (properties block), [])
                 (subComponents block)))"
  by (simp add: parseCalendarBlock_def split: prod.splits)

lemma foldl_calendarSubComponent_replace:
  assumes "\<And>st. calendarSubComponent ext debug st b = calendarSubComponent ext debug st b'"
  shows "foldl (calendarSubComponent ext debug) st0 (xs @ b # ys)
           = foldl (calendarSubComponent ext debug) st0 (xs @ b' # ys)"
  using assms by simp

text \<open>
  C9: a property of a VEVENT block whose name is no \<open>case\<close> label of the event mapper and
  does not start with \<open>X-\<close> changes no field of the event record; the event parsed, the
  calendar parsed around it, the console output of the calendar mapper and the result
  assembled are the same as without the property, so no warning and no error comes from it.
\<close>

theorem unrecognized_event_property_discarded:
  assumes "name p \<notin> set eventFieldNames" and "\<not> starts_with ''X-'' (name p)"
  shows "eventProperty e p = e \<and>
         parseEventBlock ext (ComponentBlock t (ps @ p # qs) subs)
           = parseEventBlock ext (ComponentBlock t (ps @ qs) subs) \<and>
         parseCalendarBlock ext
             (ComponentBlock ct cps (xs @ ComponentBlock ''VEVENT'' (ps @ p # qs) subs # ys)) debug
           = parseCalendarBlock ext
               (ComponentBlock ct cps (xs @ ComponentBlock ''VEVENT'' (ps @ qs) subs # ys)) debug \<and>
         fst (assemble ext debug
                (r1 @ ComponentBlock ct cps
                        (xs @ ComponentBlock ''VEVENT'' (ps @ p # qs) subs # ys) # r2) out)
           = fst (assemble ext debug
                    (r1 @ ComponentBlock ct cps
                            (xs @ ComponentBlock ''VEVENT'' (ps @ qs) subs # ys) # r2) out)"
proof -
  have step: "\<And>e. eventProperty e p = e"
    using assms by (rule eventProperty_unrecognized)
  have ev: "\<And>t. parseEventBlock ext (ComponentBlock t (ps @ p # qs) subs)
                  = parseEventBlock ext (ComponentBlock t (ps @ qs) subs)"
    by (simp add: parseEventBlock_def eventCandidate_def step)
  have sub: "\<And>st. calendarSubComponent ext debug st (ComponentBlock ''VEVENT'' (ps @ p # qs) subs)
                 = calendarSubComponent ext debug st (ComponentBlock ''VEVENT'' (ps @ qs) subs)"
    by (simp add: calendarSubComponent_def ev)
  have cal: "parseCalendarBlock ext
               (ComponentBlock ct cps (xs @ ComponentBlock ''VEVENT'' (ps @ p # qs) subs # ys)) debug
             = parseCalendarBlock ext
                 (ComponentBlock ct cps (xs @ ComponentBlock ''VEVENT'' (ps @ qs) subs # ys)) debug"
    unfolding parseCalendarBlock_def ComponentBlock.sel
    by (subst foldl_calendarSubComponent_replace [OF sub]) (rule refl)
  have "collected_core (foldl (rootBlock ext debug)
            \<lparr>cals = [], errors = [], warnings = [], printed = out\<rparr>
            (r1 @ ComponentBlock ct cps
                    (xs @ ComponentBlock ''VEVENT'' (ps @ p # qs) subs # ys) # r2))
        = collected_core (foldl (rootBlock ext debug)
            \<lparr>cals = [], errors = [], warnings = [], printed = out\<rparr>
            (r1 @ ComponentBlock ct cps
                    (xs @ ComponentBlock ''VEVENT'' (ps @ qs) subs # ys) # r2))"
    by (rule foldl_rootBlock_replace) (simp_all add: cal)
  then show ?thesis
    using step ev cal by (simp add: assemble_fst_core)
qed

theorem unrecognized_event_property_discarded_witness:
  "parseEventBlock example_externals
     (ComponentBlock ''VEVENT''
        [\<lparr>name = ''UID'', parameters = [], pvalue = ''a@b''\<rparr>,
         \<lparr>name = ''FOO'', parameters = [], pvalue = ''bar''\<rparr>,
         \<lparr>name = ''DTSTAMP'', parameters = [], pvalue = ''20231201T120000Z''\<rparr>] [])
   = parseEventBlock example_externals
       (ComponentBlock ''VEVENT''
          [\<lparr>name = ''UID'', parameters = [], pvalue = ''a@b''\<rparr>,
           \<lparr>name = ''DTSTAMP'', parameters = [], pvalue = ''20231201T120000Z''\<rparr>] [])"
proof -
  have h1: "name \<lparr>name = ''FOO'', parameters = [], pvalue = ''bar''\<rparr> \<notin> set eventFieldNames"
    by (simp add: eventFieldNames_def)
  have h2: "\<not> starts_with ''X-'' (name \<lparr>name = ''FOO'', parameters = [], pvalue = ''bar''\<rparr>)"
    by (simp add: starts_with_def)
  show ?thesis
    using unrecognized_event_property_discarded
            [OF h1 h2, of _ example_externals "''VEVENT''"
               "[\<lparr>name = ''UID'', parameters = [], pvalue = ''a@b''\<rparr>]"
               "[\<lparr>name = ''DTSTAMP'', parameters = [], pvalue = ''20231201T120000Z''\<rparr>]" "[]"]
    by simp
qed

text \<open>
  C6, as stated, fails: the event is dropped, but nothing is appended to the warnings of
  the result, with or without \<open>debug\<close>. \<open>parseCalendarBlock\<close> only prints the failure to the
  console, and only when \<open>debug\<close> is set.
\<close>

theorem dtend_duration_no_warning_counterexample:
  "parseWarnings (metadata (fst (parseIcsData example_externals dtend_duration_input False))) = [] \<and>
   parseWarnings (metadata (fst (parseIcsData example_externals dtend_duration_input True))) = [] \<and>
   map (map uid \<circ> events)
     (calendars (fst (parseIcsData example_externals dtend_duration_input False)))
     = [[Some ''good@b'']]"
  by code_simp

text \<open>
  C6, amended: an event block with both DTEND and DURATION is rejected and leaves the
  calendar under construction as it is; the only trace is a console warning when \<open>debug\<close>
  is set. The result assembled (calendars, counts, errors and warnings) is the same as if
  the block were not there: the event is dropped, the rest of the calendar and the other
  components are parsed, and nothing is appended to the warnings or the errors.
\<close>

theorem event_with_dtend_and_duration_dropped:
  assumes "ctype ev = ''VEVENT''" and "has_property ''DTEND'' ev"
    and "has_property ''DURATION'' ev"
  shows "calendarSubComponent ext debug (calendar, out) ev
           = (calendar,
              out @ (if debug
                     then [ConsoleWarn (''Failed to parse event: ''
                                        @ event_issues ext (eventCandidate ev))]
                     else [])) \<and>
         fst (assemble ext debug (r1 @ ComponentBlock ct cps (xs @ ev # ys) # r2) out0)
           = fst (assemble ext debug (r1 @ ComponentBlock ct cps (xs @ ys) # r2) out0)"
proof -
  have sub: "\<And>calendar out. calendarSubComponent ext debug (calendar, out) ev
           = (calendar,
              out @ (if debug
                     then [ConsoleWarn (''Failed to parse event: ''
                                        @ event_issues ext (eventCandidate ev))]
                     else []))"
    using assms(1) parseEventBlock_rejects [OF assms(2,3), of ext]
    by (simp add: calendarSubComponent_def)
  have "\<And>c o1. fst (foldl (calendarSubComponent ext debug) (c, o1) (ev # ys))
                 = fst (foldl (calendarSubComponent ext debug) (c, o1) ys)"
    by (simp add: sub foldl_calendarSubComponent_fst [of ext debug _ _ ys debug])
  then have "\<And>st. fst (foldl (calendarSubComponent ext debug) st (ev # ys))
                 = fst (foldl (calendarSubComponent ext debug) st ys)"
    by (metis prod.collapse)
  then have "fst (foldl (calendarSubComponent ext debug)
                    (foldl calendarProperty newCalendar cps, []) (xs @ ev # ys))
             = fst (foldl (calendarSubComponent ext debug)
                    (foldl calendarProperty newCalendar cps, []) (xs @ ys))"
    by (simp only: foldl_append)
  then have cal: "fst (parseCalendarBlock ext (ComponentBlock ct cps (xs @ ev # ys)) debug)
                  = fst (parseCalendarBlock ext (ComponentBlock ct cps (xs @ ys)) debug)"
    by (simp only: parseCalendarBlock_fst_eq ComponentBlock.sel)
  have "collected_core (foldl (rootBlock ext debug)
            \<lparr>cals = [], errors = [], warnings = [], printed = out0\<rparr>
            (r1 @ ComponentBlock ct cps (xs @ ev # ys) # r2))
        = collected_core (foldl (rootBlock ext debug)
            \<lparr>cals = [], errors = [], warnings = [], printed = out0\<rparr>
            (r1 @ ComponentBlock ct cps (xs @ ys) # r2))"
    by (rule foldl_rootBlock_replace) (simp_all add: cal)
  then show ?thesis
    using sub by (simp add: assemble_fst_core)
qed


theorem event_with_dtend_and_duration_dropped_witness:
  "calendarSubComponent example_externals True (newCalendar, [])
     (ComponentBlock ''VEVENT''
        [\<lparr>name = ''UID'', parameters = [], pvalue = ''bad@b''\<rparr>,
         \<lparr>name = ''DTEND'', parameters = [], pvalue = ''20231215T150000Z''\<rparr>,
         \<lparr>name = ''DURATION'', parameters = [], pvalue = ''PT1H''\<rparr>] [])
   = (newCalendar, [ConsoleWarn ''Failed to parse event: ''])"
proof -
  let ?ev = "ComponentBlock ''VEVENT''
        [\<lparr>name = ''UID'', parameters = [], pvalue = ''bad@b''\<rparr>,
         \<lparr>name = ''DTEND'', parameters = [], pvalue = ''20231215T150000Z''\<rparr>,
         \<lparr>name = ''DURATION'', parameters = [], pvalue = ''PT1H''\<rparr>] []"
  have h1: "ctype ?ev = ''VEVENT''" by simp
  have h2: "has_property ''DTEND'' ?ev" by (simp add: has_property_def)
  have h3: "has_property ''DURATION'' ?ev" by (simp add: has_property_def)
  show ?thesis
    using event_with_dtend_and_duration_dropped
            [OF h1 h2 h3, of example_externals True newCalendar "[]"]
    by (simp add: example_externals_def)
qed

section \<open>Components left open\<close>

lemma ctype_add_property [simp]: "ctype (add_property p b) = ctype b"
  by (simp add: add_property_def)

lemma ctype_add_subComponent [simp]: "ctype (add_subComponent c b) = ctype b"
  by (simp add: add_subComponent_def)

lemma blockLine_keeps_type:
  assumes "blockLine i line b = Inr b'" and "line \<noteq> ''END:'' @ T"
    and "T \<in> ctype ` set (stack b)"
  shows "T \<in> ctype ` set (stack b')"
proof (cases "starts_with ''BEGIN:'' line")
  case True
  then show ?thesis using assms by (auto simp: blockLine_def Let_def)
next
  case notBegin: False
  show ?thesis
  proof (cases "starts_with ''END:'' line")
    case True
    then have "take (length ''END:'') line = ''END:''"
      by (simp only: starts_with_def)
    moreover have "length ''END:'' = 4" by simp
    ultimately have "take 4 line = ''END:''" by (simp only:)
    then have line: "line = ''END:'' @ drop 4 line"
      by (metis append_take_drop_id)
    obtain cur rest where st: "stack b = cur # rest"
      using assms(3) by (cases "stack b") auto
    have cur: "ctype cur = drop 4 line"
      using assms(1) notBegin True st by (simp add: blockLine_def Let_def split: if_splits)
    then have "ctype cur \<noteq> T" using line assms(2) by auto
    then have inrest: "T \<in> ctype ` set rest" using assms(3) st by auto
    then obtain parent rest' where rest: "rest = parent # rest'"
      by (cases rest) auto
    have "stack b' = add_subComponent cur parent # rest'"
      using assms(1) notBegin True st cur rest by (auto simp: blockLine_def Let_def)
    then show ?thesis using inrest rest by auto
  next
    case False
    obtain cur rest where st: "stack b = cur # rest"
      using assms(3) by (cases "stack b") auto
    then obtain property where "stack b' = add_property property cur # rest"
      using assms(1) notBegin False by (auto simp: blockLine_def Let_def split: sum.splits)
    then show ?thesis using assms(3) st by auto
  qed
qed

lemma blocksLoop_keeps_type:
  assumes "\<forall>l \<in> set lines. js_trim l \<noteq> ''END:'' @ T" and "T \<in> ctype ` set (stack b)"
  shows "T \<in> ctype ` set (stack (fst (blocksLoop debug i lines (b, out))))"
  using assms
proof (induction lines arbitrary: i b out)
  case Nil
  then show ?case by simp
next
  case (Cons l lines)
  show ?case
  proof (cases "l = [] \<or> js_trim l = []")
    case True
    then show ?thesis using Cons.IH [of b "i + 1" out] Cons.prems by auto
  next
    case False
    show ?thesis
    proof (cases "blockLine i (js_trim l) b")
      case (Inl msg)
      then show ?thesis using False Cons.IH [of b "i + 1"] Cons.prems by simp
    next
      case (Inr b')
      then have "T \<in> ctype ` set (stack b')"
        using blockLine_keeps_type [of i "js_trim l" b b' T] Cons.prems by simp
      then show ?thesis using False Inr Cons.IH [of b' "i + 1" out] Cons.prems by simp
    qed
  qed
qed

lemma blocksLoop_append:
  "blocksLoop debug i (xs @ ys) st = blocksLoop debug (i + length xs) ys (blocksLoop debug i xs st)"
proof (induction xs arbitrary: i st)
  case Nil
  then show ?case by simp
next
  case (Cons x xs)
  obtain b out where st: "st = (b, out)" by (cases st)
  show ?case
    unfolding st using Cons.IH [of "i + 1"]
    by (simp split: sum.splits)
qed

text \<open>
  A line \<open>BEGIN:T\<close> after which no line is \<open>END:T\<close> leaves a component of type \<open>T\<close> open:
  only a line \<open>END:T\<close> pops a block of that type.
\<close>

lemma begin_without_end_unclosed:
  assumes "js_trim l = ''BEGIN:'' @ T" and "\<forall>l' \<in> set post. js_trim l' \<noteq> ''END:'' @ T"
  shows "T \<in> set (unclosed (pre @ l # post))"
proof -
  obtain b out where pre: "blocksLoop False 0 pre (\<lparr>blocks = [], stack = []\<rparr>, []) = (b, out)"
    by (cases "blocksLoop False 0 pre (\<lparr>blocks = [], stack = []\<rparr>, [])")
  have "starts_with ''BEGIN:'' (js_trim l)" and "drop 6 (js_trim l) = T"
    using assms(1) by (simp_all add: starts_with_def)
  then have line: "blockLine (length pre) (js_trim l) b
               = Inr (b\<lparr>stack := ComponentBlock T [] [] # stack b\<rparr>)"
    by (simp add: blockLine_def Let_def)
  have nonblank: "\<not> (l = [] \<or> js_trim l = [])"
    using assms(1) by (auto simp: js_trim_def)
  have "blocksLoop False 0 (pre @ l # post) (\<lparr>blocks = [], stack = []\<rparr>, [])
          = blocksLoop False (length pre + 1) post
              (b\<lparr>stack := ComponentBlock T [] [] # stack b\<rparr>, out)"
    using nonblank line by (simp add: blocksLoop_append pre)
  moreover have "T \<in> ctype ` set (stack (fst (blocksLoop False (length pre + 1) post
              (b\<lparr>stack := ComponentBlock T [] [] # stack b\<rparr>, out))))"
    using assms(2) by (intro blocksLoop_keeps_type) simp_all
  ultimately show ?thesis by (simp add: unclosed_def)
qed

section \<open>Claims about the aggregator\<close>

lemma foldl_sum: "foldl (\<lambda>sum cal. sum + f cal) (a::nat) cs = a + sum_list (map f cs)"
  by (induction cs arbitrary: a) simp_all

lemma makeResult_totals:
  "totalEvents (metadata (makeResult cs es ws)) = sum_list (map (\<lambda>c. length (events c)) cs) \<and>
   totalTodos (metadata (makeResult cs es ws)) = sum_list (map (\<lambda>c. length (todos c)) cs) \<and>
   totalJournals (metadata (makeResult cs es ws)) = sum_list (map (\<lambda>c. length (journals c)) cs) \<and>
   totalFreebusys (metadata (makeResult cs es ws)) = sum_list (map (\<lambda>c. length (freebusys c)) cs) \<and>
   totalTimezones (metadata (makeResult cs es ws)) = sum_list (map (\<lambda>c. length (timezones c)) cs) \<and>
   calendars (makeResult cs es ws) = cs"
  by (simp add: makeResult_def foldl_sum)

lemma assemble_makeResult:
  "\<exists>cs es ws. fst (assemble ext debug roots out) = makeResult cs es ws"
  unfolding assemble_def Let_def fst_conv by (intro exI) (rule refl)

lemma parseIcsData_cases:
  "(\<exists>msg. fst (parseIcsData ext data debug) = criticalResult [] [] msg) \<or>
   (\<exists>cs es ws. fst (parseIcsData ext data debug) = makeResult cs es ws)"
proof (cases "parseIntoBlocks (unfoldLines data) debug")
  case (Pair r out)
  show ?thesis
  proof (cases r)
    case (Inl msg)
    then show ?thesis using Pair by (auto simp: parseIcsData_def)
  next
    case (Inr roots)
    then obtain o1 where "fst (parseIcsData ext data debug) = fst (assemble ext debug roots o1)"
      using Pair by (auto simp: parseIcsData_def)
    then show ?thesis using assemble_makeResult [of ext debug roots o1] by simp
  qed
qed

text \<open>
  C2: for every input, each of the five counts of the result is the sum, over the
  calendars of the result, of the length of the corresponding sequence.
\<close>

theorem parseIcsData_totals:
  "totalEvents (metadata (fst (parseIcsData ext data debug)))
     = sum_list (map (\<lambda>c. length (events c)) (calendars (fst (parseIcsData ext data debug)))) \<and>
   totalTodos (metadata (fst (parseIcsData ext data debug)))
     = sum_list (map (\<lambda>c. length (todos c)) (calendars (fst (parseIcsData ext data debug)))) \<and>
   totalJournals (metadata (fst (parseIcsData ext data debug)))
     = sum_list (map (\<lambda>c. length (journals c)) (calendars (fst (parseIcsData ext data debug)))) \<and>
   totalFreebusys (metadata (fst (parseIcsData ext data debug)))
     = sum_list (map (\<lambda>c. length (freebusys c)) (calendars (fst (parseIcsData ext data debug)))) \<and>
   totalTimezones (metadata (fst (parseIcsData ext data debug)))
     = sum_list (map (\<lambda>c. length (timezones c)) (calendars (fst (parseIcsData ext data debug))))"
proof -
  consider msg where "fst (parseIcsData ext data debug) = criticalResult [] [] msg"
    | cs es ws where "fst (parseIcsData ext data debug) = makeResult cs es ws"
    using parseIcsData_cases [of ext data debug] by blast
  then show ?thesis
  proof cases
    case 1
    then show ?thesis by (simp add: criticalResult_def)
  next
    case 2
    then show ?thesis using makeResult_totals [of cs es ws] by simp
  qed
qed

theorem parseIcsData_totals_witness:
  "totalEvents (metadata (fst (parseIcsData example_externals meeting_input False))) = 1 \<and>
   sum_list (map (\<lambda>c. length (events c))
      (calendars (fst (parseIcsData example_externals meeting_input False)))) = 1"
proof -
  have "totalEvents (metadata (fst (parseIcsData example_externals meeting_input False))) = 1"
    by code_simp
  then show ?thesis
    using parseIcsData_totals [of example_externals meeting_input False] by simp
qed

text \<open>
  C1: when components are still open after the last line, \<open>parseIcsData\<close> returns a result
  (it throws nothing) with no calendar, the five counts zero, no warning, and one error:
  the critical parsing error that names the unclosed components.
\<close>

theorem unclosed_component_critical:
  assumes "unclosed (unfoldLines data) \<noteq> []"
  shows "fst (parseIcsData ext data debug)
           = \<lparr>calendars = [],
              metadata = \<lparr>totalEvents = 0, totalTodos = 0, totalJournals = 0,
                          totalFreebusys = 0, totalTimezones = 0,
                          parseErrors = [''Critical parsing error: Unclosed components: ''
                                         @ join '', '' (unclosed (unfoldLines data))],
                          parseWarnings = []\<rparr>\<rparr>"
proof -
  obtain b out where run: "blocksLoop debug 0 (unfoldLines data) (\<lparr>blocks = [], stack = []\<rparr>, [])
                             = (b, out)"
    by (cases "blocksLoop debug 0 (unfoldLines data) (\<lparr>blocks = [], stack = []\<rparr>, [])")
  have b: "b = fst (blocksLoop False 0 (unfoldLines data) (\<lparr>blocks = [], stack = []\<rparr>, []))"
    using blocksLoop_fst [of debug 0 "unfoldLines data" "\<lparr>blocks = [], stack = []\<rparr>" "[]" False "[]"]
      run by simp
  then have types: "unclosed (unfoldLines data) = map ctype (rev (stack b))"
    by (simp add: unclosed_def)
  with assms have "stack b \<noteq> []" by auto
  then have "parseIntoBlocks (unfoldLines data) debug
               = (Inl (''Unclosed components: '' @ join '', '' (unclosed (unfoldLines data))), out)"
    by (simp add: parseIntoBlocks_def run types)
  then show ?thesis
    by (simp add: parseIcsData_def criticalResult_def Let_def)
qed

theorem unclosed_component_critical_witness:
  "fst (parseIcsData example_externals unclosed_event_input False)
     = \<lparr>calendars = [],
        metadata = \<lparr>totalEvents = 0, totalTodos = 0, totalJournals = 0,
                    totalFreebusys = 0, totalTimezones = 0,
                    parseErrors =
                      [''Critical parsing error: Unclosed components: VCALENDAR, VEVENT''],
                    parseWarnings = []\<rparr>\<rparr>"
proof -
  have u: "unclosed (unfoldLines unclosed_event_input) = [''VCALENDAR'', ''VEVENT'']"
    by code_simp
  then have h: "unclosed (unfoldLines unclosed_event_input) \<noteq> []" by simp
  show ?thesis
    using unclosed_component_critical [OF h, of example_externals False] by (simp add: u)
qed

text \<open>
  C5 fails in the code. \<open>splitCommaSeparated\<close> alone keeps the escaped comma, but the value it
  receives from the block has been unescaped by \<open>parsePropertyLine\<close> already, so the escaped
  comma is a plain comma by then and the event gets three categories.
\<close>

theorem categories_escaped_comma_split:
  "map (map categories \<circ> events)
     (calendars (fst (parseIcsData example_externals categories_input False)))
     = [[Some [''Work'', ''Fun'', ''Travel'']]] \<and>
   splitCommaSeparated (''Work'' @ [BSL] @ '',Fun,Travel'') = [''Work,Fun'', ''Travel'']"
  by code_simp

end
